theory Spec2Isabelle
  imports Main
begin

section \<open>Strings\<close>

text \<open>
  An ECMAScript string is a sequence of UTF-16 code units; \<open>length\<close> counts code units and
  a regular expression without the \<open>u\<close> flag matches code unit by code unit.  A code unit is
  modelled by its number.
\<close>

type_synonym jsstring = "nat list"

definition str :: "string \<Rightarrow> jsstring" where
  "str s = map of_char s"

text \<open>White space and line terminators of ECMAScript: what \<open>\s\<close> matches and \<open>trim\<close> strips.\<close>

definition isLineTerminator :: "nat \<Rightarrow> bool" where
  "isLineTerminator c \<longleftrightarrow> c = 0x0A \<or> c = 0x0D \<or> c = 0x2028 \<or> c = 0x2029"

definition isWhiteSpace :: "nat \<Rightarrow> bool" where
  "isWhiteSpace c \<longleftrightarrow>
     c = 0x09 \<or> c = 0x0B \<or> c = 0x0C \<or> c = 0x20 \<or> c = 0xA0 \<or> c = 0x1680 \<or>
     (0x2000 \<le> c \<and> c \<le> 0x200A) \<or> c = 0x202F \<or> c = 0x205F \<or> c = 0x3000 \<or> c = 0xFEFF \<or>
     isLineTerminator c"

definition trim :: "jsstring \<Rightarrow> jsstring" where
  "trim s = rev (dropWhile isWhiteSpace (rev (dropWhile isWhiteSpace s)))"

text \<open>
  Lower-casing of the ASCII letters.  It is what the comparison of identifiers in quirks
  mode uses, and it is \<open>toLowerCase\<close> wherever the analyser calls that: on a letter matched
  by \<open>[a-z]\<close>, and on tag names compared with \<open>ol\<close>, \<open>ul\<close> and \<open>div\<close> (Unicode lower-casing maps
  no non-ASCII character to a letter of these three names).
\<close>

definition lowerASCII :: "nat \<Rightarrow> nat" where
  "lowerASCII c = (if 0x41 \<le> c \<and> c \<le> 0x5A then c + 0x20 else c)"

definition toLowerCase :: "jsstring \<Rightarrow> jsstring" where
  "toLowerCase s = map lowerASCII s"

text \<open>\<open>s.includes(t)\<close> and \<open>s.replace(t, '')\<close> for a string pattern \<open>t\<close>: the first occurrence.\<close>

fun includesStr :: "jsstring \<Rightarrow> jsstring \<Rightarrow> bool" where
  "includesStr [] t = (t = [])"
| "includesStr (c # s) t = (take (length t) (c # s) = t \<or> includesStr s t)"

fun removeFirst :: "jsstring \<Rightarrow> jsstring \<Rightarrow> jsstring" where
  "removeFirst [] t = []"
| "removeFirst (c # s) t =
     (if take (length t) (c # s) = t then drop (length t) (c # s) else c # removeFirst s t)"

text \<open>The decimal digits of a natural number, as a template literal renders an index.\<close>

fun digitsOf :: "nat \<Rightarrow> jsstring" where
  "digitsOf n = (if n < 10 then [0x30 + n] else digitsOf (n div 10) @ [0x30 + n mod 10])"

declare digitsOf.simps [simp del]

section \<open>Regular expressions\<close>

text \<open>
  The patterns of the analyser use character classes, greedy \<open>*\<close> and \<open>+\<close> and one lazy
  \<open>*?\<close> over single characters, sequencing, alternation and capture groups.  A class is a
  union of inclusive code-unit ranges.  Matching is ECMAScript's backtracking: the
  alternatives are listed in the order the matcher tries them, and the first one wins.
\<close>

type_synonym cclass = "(nat \<times> nat) list"

datatype regex =
    Eps
  | Cls cclass
  | Star cclass
  | Plus cclass
  | LazyStar cclass
  | Seq regex regex
  | Alt regex regex
  | Grp nat regex

definition inClass :: "cclass \<Rightarrow> nat \<Rightarrow> bool" where
  "inClass cl c = list_ex (\<lambda>(lo, hi). lo \<le> c \<and> c \<le> hi) cl"

type_synonym captures = "(nat \<times> jsstring) list"
type_synonym mstate = "jsstring \<times> captures"

fun starGreedy :: "cclass \<Rightarrow> jsstring \<Rightarrow> captures \<Rightarrow> mstate list" where
  "starGreedy cl [] caps = [([], caps)]"
| "starGreedy cl (c # s) caps =
     (if inClass cl c then starGreedy cl s caps @ [(c # s, caps)] else [(c # s, caps)])"

fun starLazy :: "cclass \<Rightarrow> jsstring \<Rightarrow> captures \<Rightarrow> mstate list" where
  "starLazy cl [] caps = [([], caps)]"
| "starLazy cl (c # s) caps =
     (c # s, caps) # (if inClass cl c then starLazy cl s caps else [])"

fun rmatch :: "regex \<Rightarrow> mstate \<Rightarrow> mstate list" where
  "rmatch Eps st = [st]"
| "rmatch (Cls cl) (s, caps) =
     (case s of [] \<Rightarrow> [] | c # s' \<Rightarrow> if inClass cl c then [(s', caps)] else [])"
| "rmatch (Star cl) (s, caps) = starGreedy cl s caps"
| "rmatch (Plus cl) (s, caps) =
     (case s of [] \<Rightarrow> [] | c # s' \<Rightarrow> if inClass cl c then starGreedy cl s' caps else [])"
| "rmatch (LazyStar cl) (s, caps) = starLazy cl s caps"
| "rmatch (Seq r1 r2) st = concat (map (rmatch r2) (rmatch r1 st))"
| "rmatch (Alt r1 r2) st = rmatch r1 st @ rmatch r2 st"
| "rmatch (Grp i r) (s, caps) =
     map (\<lambda>(s', caps'). (s', (i, take (length s - length s') s) # caps')) (rmatch r (s, caps))"

text \<open>
  The result of \<open>exec\<close>/\<open>match\<close> without the \<open>g\<close> flag: the matched substring (index 0)
  and the capture groups; a group that did not take part is undefined (\<open>None\<close>).
\<close>

record jsmatch =
  whole :: jsstring
  groups :: captures

definition grp :: "jsmatch \<Rightarrow> nat \<Rightarrow> jsstring option" where
  "grp m i = map_of (groups m) i"

fun match :: "jsstring \<Rightarrow> regex \<Rightarrow> jsmatch option" where
  "match [] r =
     (case rmatch r ([], []) of [] \<Rightarrow> None
      | (s', caps) # _ \<Rightarrow> Some \<lparr>whole = [], groups = caps\<rparr>)"
| "match (c # s) r =
     (case rmatch r (c # s, []) of [] \<Rightarrow> match s r
      | (s', caps) # _ \<Rightarrow> Some \<lparr>whole = take (length (c # s) - length s') (c # s), groups = caps\<rparr>)"

definition test :: "regex \<Rightarrow> jsstring \<Rightarrow> bool" where
  "test r s = (match s r \<noteq> None)"

subsection \<open>The patterns of the analyser\<close>

text \<open>
  All patterns carry the \<open>i\<close> flag.  Without the \<open>u\<close> flag a character is canonicalised by
  \<open>toUpperCase\<close>, except that a non-ASCII character is never mapped to an ASCII one: so a
  letter of a pattern matches exactly its two ASCII cases, and \<open>[a-z]\<close> matches \<open>[a-zA-Z]\<close>.
\<close>

definition one :: "char \<Rightarrow> cclass" where
  "one c = [(of_char c, of_char c)]"

definition letter :: cclass where             \<comment> \<open>\<open>[a-z]\<close> under \<open>i\<close>\<close>
  "letter = [(0x61, 0x7A), (0x41, 0x5A)]"

definition digitDot :: cclass where           \<comment> \<open>\<open>[0-9.]\<close>\<close>
  "digitDot = [(0x30, 0x39), (0x2E, 0x2E)]"

definition plusMinus :: cclass where          \<comment> \<open>\<open>[+\-]\<close>\<close>
  "plusMinus = one CHR ''+'' @ one CHR ''-''"

definition operator :: cclass where           \<comment> \<open>\<open>[+\-*/]\<close>\<close>
  "operator = plusMinus @ one CHR ''*'' @ one CHR ''/''"

definition space :: cclass where              \<comment> \<open>\<open>\s\<close>\<close>
  "space = [(0x09, 0x0D), (0x20, 0x20), (0xA0, 0xA0), (0x1680, 0x1680), (0x2000, 0x200A),
            (0x2028, 0x2029), (0x202F, 0x202F), (0x205F, 0x205F), (0x3000, 0x3000),
            (0xFEFF, 0xFEFF)]"

definition anyChar :: cclass where            \<comment> \<open>\<open>.\<close>: all but the line terminators\<close>
  "anyChar = [(0, 0x09), (0x0B, 0x0C), (0x0E, 0x2027), (0x202A, 0xFFFF)]"

definition seqs :: "regex list \<Rightarrow> regex" where
  "seqs rs = foldr Seq rs Eps"

definition letterI :: "char \<Rightarrow> cclass" where   \<comment> \<open>a lower-case letter of a pattern under \<open>i\<close>\<close>
  "letterI c = [(of_char c, of_char c), (of_char c - 0x20, of_char c - 0x20)]"

definition word :: "string \<Rightarrow> regex" where
  "word w = seqs (map (\<lambda>c. Cls (letterI c)) w)"

text \<open>\<^verbatim>\<open>/([a-z])\s*=\s*([0-9.]*[a-z])\s*[+\-]\s*([0-9.]+)|([0-9.]*[a-z])\s*[+\-]\s*([0-9.]+)\s*=\s*([0-9.]+)/i\<close>\<close>

definition linearEquationPattern :: regex where
  "linearEquationPattern =
     Alt (seqs [Grp 1 (Cls letter), Star space, Cls (one CHR ''=''), Star space,
                Grp 2 (Seq (Star digitDot) (Cls letter)), Star space, Cls plusMinus, Star space,
                Grp 3 (Plus digitDot)])
         (seqs [Grp 4 (Seq (Star digitDot) (Cls letter)), Star space, Cls plusMinus, Star space,
                Grp 5 (Plus digitDot), Star space, Cls (one CHR ''=''), Star space,
                Grp 6 (Plus digitDot)])"

text \<open>\<^verbatim>\<open>/([a-z])\s*=/i\<close> and \<^verbatim>\<open>/([0-9.]*[a-z])/i\<close> and \<^verbatim>\<open>/[a-z]/i\<close>\<close>

definition varBeforeEquals :: regex where
  "varBeforeEquals = seqs [Grp 1 (Cls letter), Star space, Cls (one CHR ''='')]"

definition leadingTerm :: regex where
  "leadingTerm = Grp 1 (Seq (Star digitDot) (Cls letter))"

definition anyLetter :: regex where
  "anyLetter = Cls letter"

text \<open>\<^verbatim>\<open>(\^2|\\<twosuperior>)\<close>: a caret and the digit two, or the superscript two (U+00B2).\<close>

definition squared :: "nat \<Rightarrow> regex" where
  "squared i = Grp i (Alt (Seq (Cls (one CHR ''^'')) (Cls (one CHR ''2''))) (Cls [(0xB2, 0xB2)]))"

text \<open>\<^verbatim>\<open>/([a-z])\s*=\s*([a-z])(\^2|\\<twosuperior>)\s*[+\-]\s*([0-9.]*[a-z])\s*[+\-]\s*([0-9.]+)|([a-z])(\^2|\\<twosuperior>)\s*[+\-]\s*([0-9.]*[a-z])\s*[+\-]\s*([0-9.]+)\s*=\s*([0-9.]+)/i\<close>\<close>

definition quadraticPattern :: regex where
  "quadraticPattern =
     Alt (seqs [Grp 1 (Cls letter), Star space, Cls (one CHR ''=''), Star space,
                Grp 2 (Cls letter), squared 3, Star space, Cls plusMinus, Star space,
                Grp 4 (Seq (Star digitDot) (Cls letter)), Star space, Cls plusMinus, Star space,
                Grp 5 (Plus digitDot)])
         (seqs [Grp 6 (Cls letter), squared 7, Star space, Cls plusMinus, Star space,
                Grp 8 (Seq (Star digitDot) (Cls letter)), Star space, Cls plusMinus, Star space,
                Grp 9 (Plus digitDot), Star space, Cls (one CHR ''=''), Star space,
                Grp 10 (Plus digitDot)])"

text \<open>\<^verbatim>\<open>/([a-z])(\^2|\\<twosuperior>)/i\<close>\<close>

definition squaredVar :: regex where
  "squaredVar = Seq (Grp 1 (Cls letter)) (squared 2)"

text \<open>\<^verbatim>\<open>/([a-z])\s*=\s*([0-9.a-z+\-*/^()]+)/i\<close>\<close>

definition exprChar :: cclass where           \<comment> \<open>\<open>[0-9.a-z+\-*/^()]\<close> under \<open>i\<close>\<close>
  "exprChar = digitDot @ letter @ operator @ one CHR ''^'' @ one CHR ''('' @ one CHR '')''"

definition mathPattern :: regex where
  "mathPattern =
     seqs [Grp 1 (Cls letter), Star space, Cls (one CHR ''=''), Star space, Grp 2 (Plus exprChar)]"

text \<open>The five problem patterns, in the order of the source's array:
  \<^verbatim>\<open>/solve\s+for\s+([a-z])\s*:\s*(.*?)/i\<close>,
  \<^verbatim>\<open>/find\s+the\s+value\s+of\s+([a-z])\s+/i\<close>,
  \<^verbatim>\<open>/calculate\s+the\s+([a-z])\s+/i\<close>,
  \<^verbatim>\<open>/determine\s+([a-z])\s+/i\<close>,
  \<^verbatim>\<open>/([a-z0-9.]+[a-z])\s*[+\-*/]\s*([0-9.]+)\s*=\s*([0-9.]+)/i\<close>.\<close>

definition problemPatterns :: "regex list" where
  "problemPatterns =
    [seqs [word ''solve'', Plus space, word ''for'', Plus space, Grp 1 (Cls letter), Star space,
           Cls (one CHR '':''), Star space, Grp 2 (LazyStar anyChar)],
     seqs [word ''find'', Plus space, word ''the'', Plus space, word ''value'', Plus space,
           word ''of'', Plus space, Grp 1 (Cls letter), Plus space],
     seqs [word ''calculate'', Plus space, word ''the'', Plus space, Grp 1 (Cls letter), Plus space],
     seqs [word ''determine'', Plus space, Grp 1 (Cls letter), Plus space],
     seqs [Grp 1 (Seq (Plus (letter @ digitDot)) (Cls letter)), Star space, Cls operator,
           Star space, Grp 2 (Plus digitDot), Star space, Cls (one CHR ''=''), Star space,
           Grp 3 (Plus digitDot)]]"

text \<open>\<^verbatim>\<open>/([a-z0-9.=+\-*/^()]+)/i\<close>, the expression of a step.\<close>

definition stepExpression :: regex where
  "stepExpression =
     Grp 1 (Plus (letter @ digitDot @ one CHR ''='' @ operator @ one CHR ''^'' @ one CHR ''(''
                  @ one CHR '')''))"

text \<open>The patterns that take a synthesised equation apart:
  \<^verbatim>\<open>/([0-9.]*[a-z])\s*[+\-]\s*([0-9.]+)\s*=\s*([0-9.]+)/i\<close>, \<^verbatim>\<open>/([a-z])/i\<close>,
  \<^verbatim>\<open>/([0-9.]*)[a-z]/i\<close>, \<^verbatim>\<open>/[a-z]\s*[+\-]\s*([0-9.]+)/i\<close>, \<^verbatim>\<open>/=\s*([0-9.]+)/i\<close>.\<close>

definition linearShape :: regex where
  "linearShape =
     seqs [Grp 1 (Seq (Star digitDot) (Cls letter)), Star space, Cls plusMinus, Star space,
           Grp 2 (Plus digitDot), Star space, Cls (one CHR ''=''), Star space, Grp 3 (Plus digitDot)]"

definition variablePattern :: regex where
  "variablePattern = Grp 1 (Cls letter)"

definition coefficientPattern :: regex where
  "coefficientPattern = Seq (Grp 1 (Star digitDot)) (Cls letter)"

definition constantPattern :: regex where
  "constantPattern = seqs [Cls letter, Star space, Cls plusMinus, Star space, Grp 1 (Plus digitDot)]"

definition rightSidePattern :: regex where
  "rightSidePattern = seqs [Cls (one CHR ''=''), Star space, Grp 1 (Plus digitDot)]"

section \<open>The document\<close>

text \<open>
  \<open>parseHtmlContent\<close> hands the string to the platform's \<open>DOMParser\<close>, which is not code of
  this repository; the analysis is a function of the \<open>Document\<close> it returns.  A node of the
  tree is an element (local name, attributes as the parser leaves them: lower-case names,
  no duplicates), a text node or a comment.  The document knows whether the parser put it
  in quirks mode (no doctype), where class names and ids match without regard to ASCII
  case.
\<close>

datatype node =
    Element (localName: jsstring) (attributes: "(jsstring \<times> jsstring) list") (childNodes: "node list")
  | Text jsstring
  | Comment jsstring

record document =
  quirks :: bool
  documentElement :: node

fun isElement :: "node \<Rightarrow> bool" where
  "isElement (Element _ _ _) = True"
| "isElement _ = False"

fun textContent :: "node \<Rightarrow> jsstring" where
  "textContent (Element t a cs) = concat (map textContent cs)"
| "textContent (Text d) = d"
| "textContent (Comment d) = []"

definition getAttribute :: "node \<Rightarrow> jsstring \<Rightarrow> jsstring option" where
  "getAttribute n a = map_of (attributes n) a"

definition elementId :: "node \<Rightarrow> jsstring" where    \<comment> \<open>\<open>element.id\<close>\<close>
  "elementId n = (case getAttribute n (str ''id'') of None \<Rightarrow> [] | Some v \<Rightarrow> v)"

text \<open>
  An element in its place: the subtree, the element siblings before it (nearest first)
  and after it, and the parent element.  Two elements of one document are the same
  element exactly when these agree.
\<close>

datatype elem =
  Elem (node: node) (preceding: "node list") (following: "node list") (parentElement: "elem option")

definition nextElementSibling :: "elem \<Rightarrow> elem option" where
  "nextElementSibling e =
     (case following e of [] \<Rightarrow> None
      | n # ns \<Rightarrow> Some (Elem n (node e # preceding e) ns (parentElement e)))"

definition previousElementSibling :: "elem \<Rightarrow> elem option" where
  "previousElementSibling e =
     (case preceding e of [] \<Rightarrow> None
      | n # ns \<Rightarrow> Some (Elem n ns (node e # following e) (parentElement e)))"

text \<open>The elements of a subtree in document order, the root of the subtree first.\<close>

fun subtree :: "elem option \<Rightarrow> node list \<Rightarrow> node list \<Rightarrow> node \<Rightarrow> elem list"
  and forest :: "elem \<Rightarrow> node list \<Rightarrow> node list \<Rightarrow> elem list" where
  "subtree par prec foll (Element t a cs) =
     Elem (Element t a cs) prec foll par # forest (Elem (Element t a cs) prec foll par) [] cs"
| "subtree par prec foll (Text d) = []"
| "subtree par prec foll (Comment d) = []"
| "forest par prec [] = []"
| "forest par prec (c # cs) =
     subtree (Some par) prec (filter isElement cs) c
     @ forest par (if isElement c then c # prec else prec) cs"

definition descendants :: "elem \<Rightarrow> elem list" where
  "descendants e = forest e [] (childNodes (node e))"

definition children :: "elem \<Rightarrow> node list" where     \<comment> \<open>\<open>element.children\<close>\<close>
  "children e = filter isElement (childNodes (node e))"

definition allElements :: "document \<Rightarrow> elem list" where
  "allElements doc = subtree None [] [] (documentElement doc)"

subsection \<open>Selectors\<close>

text \<open>
  The selectors the analyser writes out are built from type, class and attribute
  selectors, \<open>:first-child\<close>, \<open>:has(\<dots>)\<close> with a compound argument (a descendant of the
  element), the next-sibling combinator \<open>+\<close> and the comma.  They are valid selectors of
  Selectors Level 4, so a query with one of them does not throw.  Type selectors are
  written in lower case and compared with the local name; class names and ids are
  compared without regard to ASCII case in quirks mode.
\<close>

datatype simple =
    TypeSel jsstring
  | ClassSel jsstring
  | IdSel jsstring
  | AttrEquals jsstring jsstring
  | FirstChild
  | Has "simple list"

datatype selector =
    Compound "simple list"
  | Adjacent "simple list" "simple list"

definition isASCIIWhitespace :: "nat \<Rightarrow> bool" where
  "isASCIIWhitespace c \<longleftrightarrow> c = 0x09 \<or> c = 0x0A \<or> c = 0x0C \<or> c = 0x0D \<or> c = 0x20"

fun splitOn :: "(nat \<Rightarrow> bool) \<Rightarrow> jsstring \<Rightarrow> jsstring \<Rightarrow> jsstring list" where
  "splitOn P cur [] = (if cur = [] then [] else [rev cur])"
| "splitOn P cur (c # s) =
     (if P c then (if cur = [] then splitOn P [] s else rev cur # splitOn P [] s)
      else splitOn P (c # cur) s)"

definition classList :: "node \<Rightarrow> jsstring list" where
  "classList n =
     (case getAttribute n (str ''class'') of None \<Rightarrow> []
      | Some v \<Rightarrow> splitOn isASCIIWhitespace [] v)"

definition sameIdent :: "bool \<Rightarrow> jsstring \<Rightarrow> jsstring \<Rightarrow> bool" where
  "sameIdent q a b = (if q then toLowerCase a = toLowerCase b else a = b)"

fun matchesSimple :: "bool \<Rightarrow> simple \<Rightarrow> elem \<Rightarrow> bool" where
  "matchesSimple q (TypeSel t) e = (localName (node e) = t)"
| "matchesSimple q (ClassSel c) e = list_ex (sameIdent q c) (classList (node e))"
| "matchesSimple q (IdSel i) e =
     (case getAttribute (node e) (str ''id'') of None \<Rightarrow> False | Some v \<Rightarrow> sameIdent q i v)"
| "matchesSimple q (AttrEquals a v) e = (getAttribute (node e) a = Some v)"
| "matchesSimple q FirstChild e = (preceding e = [])"
| "matchesSimple q (Has cs) e =
     list_ex (\<lambda>d. list_all (\<lambda>c. matchesSimple q c d) cs) (descendants e)"

definition matchesCompound :: "bool \<Rightarrow> simple list \<Rightarrow> elem \<Rightarrow> bool" where
  "matchesCompound q cs e = list_all (\<lambda>c. matchesSimple q c e) cs"

fun matches :: "bool \<Rightarrow> selector \<Rightarrow> elem \<Rightarrow> bool" where
  "matches q (Compound cs) e = matchesCompound q cs e"
| "matches q (Adjacent as bs) e =
     (matchesCompound q bs e \<and>
      (case previousElementSibling e of None \<Rightarrow> False | Some p \<Rightarrow> matchesCompound q as p))"

definition matchesAny :: "bool \<Rightarrow> selector list \<Rightarrow> elem \<Rightarrow> bool" where
  "matchesAny q sels e = list_ex (\<lambda>s. matches q s e) sels"

text \<open>\<open>document.querySelectorAll\<close>, and \<open>querySelectorAll\<close>, \<open>querySelector\<close> and \<open>closest\<close> of an
  element, for a selector list.\<close>

definition querySelectorAll :: "document \<Rightarrow> selector list \<Rightarrow> elem list" where
  "querySelectorAll doc sels = filter (matchesAny (quirks doc) sels) (allElements doc)"

definition querySelectorAllIn :: "bool \<Rightarrow> elem \<Rightarrow> selector list \<Rightarrow> elem list" where
  "querySelectorAllIn q e sels = filter (matchesAny q sels) (descendants e)"

definition querySelectorIn :: "bool \<Rightarrow> elem \<Rightarrow> selector list \<Rightarrow> elem option" where
  "querySelectorIn q e sels = find (matchesAny q sels) (descendants e)"

fun closest :: "bool \<Rightarrow> elem \<Rightarrow> selector list \<Rightarrow> elem option" where
  "closest q (Elem n prec foll par) sels =
     (if matchesAny q sels (Elem n prec foll par) then Some (Elem n prec foll par)
      else case par of None \<Rightarrow> None | Some p \<Rightarrow> closest q p sels)"

section \<open>Numbers\<close>

text \<open>
  A Number is an IEEE 754 double.  A finite double is \<open>m \<times> 2\<^sup>e\<close> for integers \<open>m\<close> and \<open>e\<close>;
  \<open>Finite m e\<close> is kept in lowest terms (\<open>m\<close> odd, or \<open>Finite 0 0\<close> for zero), so that equal
  values are equal terms.  The sign of zero is not kept: no number of the analyser is
  divided by a negative zero (every divisor is read from an unsigned literal), and a zero
  of either sign prints as \<open>0\<close>.
\<close>

datatype number = NaN | Infinity bool | Finite int int

function bitLength :: "int \<Rightarrow> nat" where
  "bitLength n = (if n \<le> 0 then 0 else Suc (bitLength (n div 2)))"
  by pat_completeness auto
termination
  by (relation "measure nat") auto

declare bitLength.simps [simp del]

function normalise :: "int \<Rightarrow> int \<Rightarrow> number" where
  "normalise m e =
     (if m = 0 then Finite 0 0
      else if even m then normalise (m div 2) (e + 1)
      else Finite m e)"
  by pat_completeness auto
termination
  by (relation "measure (\<lambda>(m, e). nat \<bar>m\<bar>)") auto

declare normalise.simps [simp del]

text \<open>\<open>a / (b \<times> 2\<^sup>e)\<close> as a fraction of integers.\<close>

definition scaled :: "int \<Rightarrow> int \<Rightarrow> int \<Rightarrow> int \<times> int" where
  "scaled a b e = (if 0 \<le> e then (a, b * 2 ^ nat e) else (a * 2 ^ nat (- e), b))"

text \<open>
  The double nearest to \<open>a / b\<close>, for \<open>0 \<le> a\<close> and \<open>0 < b\<close>, ties to the even significand:
  the exponent \<open>e\<close> puts the quotient in \<open>[2\<^sup>5\<^sup>2, 2\<^sup>5\<^sup>3)\<close>, or is \<open>-1074\<close> for a subnormal; a
  result of \<open>2\<^sup>1\<^sup>0\<^sup>2\<^sup>4\<close> or more is infinite.
\<close>

definition roundQuotient :: "int \<Rightarrow> int \<Rightarrow> number" where
  "roundQuotient a b =
     (if a = 0 then Finite 0 0
      else
        let e0 = int (bitLength a) - int (bitLength b) - 53;
            (n0, d0) = scaled a b e0;
            e1 = (if d0 * 2 ^ 53 \<le> n0 then e0 + 1 else e0);
            e = max e1 (- 1074);
            (n, d) = scaled a b e;
            q = n div d;
            r = n mod d;
            m = (if d < 2 * r \<or> (2 * r = d \<and> odd q) then q + 1 else q)
        in if 971 < e \<or> (e = 971 \<and> m = 2 ^ 53) then Infinity False else normalise m e)"

definition negate :: "number \<Rightarrow> number" where
  "negate x = (case x of NaN \<Rightarrow> NaN | Infinity s \<Rightarrow> Infinity (\<not> s) | Finite m e \<Rightarrow> Finite (- m) e)"

text \<open>The double nearest to the rational \<open>a / b\<close> of either sign (\<open>0 < b\<close>).\<close>

definition roundRatio :: "int \<Rightarrow> int \<Rightarrow> number" where
  "roundRatio a b = (if a < 0 then negate (roundQuotient (- a) b) else roundQuotient a b)"

text \<open>\<open>x - y\<close> and \<open>x / y\<close>.\<close>

fun numSubtract :: "number \<Rightarrow> number \<Rightarrow> number" where
  "numSubtract NaN y = NaN"
| "numSubtract x NaN = NaN"
| "numSubtract (Infinity s) (Infinity t) = (if s = t then NaN else Infinity s)"
| "numSubtract (Infinity s) (Finite m e) = Infinity s"
| "numSubtract (Finite m e) (Infinity t) = Infinity (\<not> t)"
| "numSubtract (Finite m1 e1) (Finite m2 e2) =
     (let e = min e1 e2;
          d = m1 * 2 ^ nat (e1 - e) - m2 * 2 ^ nat (e2 - e);
          (a, b) = scaled d 1 (- e)
      in roundRatio a b)"

fun numDivide :: "number \<Rightarrow> number \<Rightarrow> number" where
  "numDivide NaN y = NaN"
| "numDivide x NaN = NaN"
| "numDivide (Infinity s) (Infinity t) = NaN"
| "numDivide (Infinity s) (Finite m e) = Infinity (s \<noteq> (m < 0))"
| "numDivide (Finite m e) (Infinity t) = Finite 0 0"
| "numDivide (Finite m1 e1) (Finite m2 e2) =
     (if m2 = 0 then (if m1 = 0 then NaN else Infinity (m1 < 0))
      else
        let (a, b) = scaled (\<bar>m1\<bar>) (\<bar>m2\<bar>) (e2 - e1)
        in if (m1 < 0) \<noteq> (m2 < 0) then negate (roundQuotient a b) else roundQuotient a b)"

subsection \<open>\<open>parseFloat\<close>\<close>

text \<open>
  Every argument of \<open>parseFloat\<close> in the analyser is a capture of \<open>[0-9.]*\<close> or \<open>[0-9.]+\<close>, or
  the literal \<open>'1'\<close> or \<open>'0'\<close>.  On such a string \<open>parseFloat\<close> reads the longest prefix that
  is a decimal literal (digits, then possibly a dot and digits; or a dot and digits) and
  answers the nearest double, or \<open>NaN\<close> when there is no digit to read.  (For a literal of
  more than twenty significant digits the standard also lets an implementation round the
  literal at the twentieth digit first; the model reads every literal exactly.)  On a
  string that starts otherwise the model answers \<open>NaN\<close> (the platform would also skip white
  space and read a sign, an exponent and \<open>Infinity\<close>).
\<close>

definition isDigit :: "nat \<Rightarrow> bool" where
  "isDigit c \<longleftrightarrow> 0x30 \<le> c \<and> c \<le> 0x39"

definition digitsValue :: "jsstring \<Rightarrow> int" where
  "digitsValue ds = foldl (\<lambda>v c. 10 * v + (int c - 0x30)) 0 ds"

definition parseFloat :: "jsstring \<Rightarrow> number" where
  "parseFloat s =
     (let ip = takeWhile isDigit s;
          rest = dropWhile isDigit s;
          fp = (case rest of [] \<Rightarrow> [] | c # t \<Rightarrow> if c = 0x2E then takeWhile isDigit t else [])
      in if ip = [] \<and> fp = [] then NaN
         else roundQuotient (digitsValue (ip @ fp)) (10 ^ length fp))"

subsection \<open>Number to string\<close>

text \<open>
  \<open>Number::toString\<close> in radix 10 prints the shortest digit string \<open>s\<close> (with \<open>k\<close> digits)
  and exponent \<open>n\<close> such that \<open>s \<times> 10\<^sup>n\<^sup>-\<^sup>k\<close> reads back as the number, the closest such when
  there are several.  \<open>decimalExponent a b\<close> is the \<open>n\<close> with \<open>10\<^sup>n\<^sup>-\<^sup>1 \<le> a / b < 10\<^sup>n\<close>.
\<close>

text \<open>\<open>a / (b \<times> 10\<^sup>e)\<close> as a fraction of integers.\<close>

definition scaled10 :: "int \<Rightarrow> int \<Rightarrow> int \<Rightarrow> int \<times> int" where
  "scaled10 a b e = (if 0 \<le> e then (a, b * 10 ^ nat e) else (a * 10 ^ nat (- e), b))"

function expUp :: "int \<Rightarrow> int \<Rightarrow> nat \<Rightarrow> nat" where
  "expUp a b n = (if b \<le> 0 \<or> a < b * 10 ^ n then n else expUp a b (Suc n))"
  by pat_completeness auto
termination
proof (relation "measure (\<lambda>(a, b, n). nat (a + 1 - b * 10 ^ n))", goal_cases)
  case 1
  show ?case by simp
next
  case (2 a b n)
  then have b: "0 < b" and le: "b * 10 ^ n \<le> a" by auto
  have "b * 10 ^ n < b * 10 ^ Suc n" using b by simp
  then show ?case using le by simp
qed

function expDown :: "int \<Rightarrow> int \<Rightarrow> nat \<Rightarrow> nat" where
  "expDown a b n = (if a \<le> 0 \<or> b \<le> a * 10 ^ n then n else expDown a b (Suc n))"
  by pat_completeness auto
termination
proof (relation "measure (\<lambda>(a, b, n). nat (b + 1 - a * 10 ^ n))", goal_cases)
  case 1
  show ?case by simp
next
  case (2 a b n)
  then have a: "0 < a" and lt: "a * 10 ^ n < b" by auto
  have "a * 10 ^ n < a * 10 ^ Suc n" using a by simp
  then show ?case using lt by simp
qed

declare expUp.simps [simp del] expDown.simps [simp del]

definition decimalExponent :: "int \<Rightarrow> int \<Rightarrow> int" where
  "decimalExponent a b = (if b \<le> a then int (expUp a b 0) else 1 - int (expDown a b 0))"

text \<open>Whether the decimal \<open>s \<times> 10\<^sup>e\<close> reads back as \<open>x\<close>.\<close>

definition readsBack :: "int \<Rightarrow> int \<Rightarrow> number \<Rightarrow> bool" where
  "readsBack s e x = (case scaled10 s 1 (- e) of (p, q) \<Rightarrow> roundQuotient p q = x)"

text \<open>
  The \<open>k\<close>-digit candidates for \<open>x = a / b\<close> are the two neighbours of \<open>x / 10\<^sup>n\<^sup>-\<^sup>k\<close>; of those
  that read back as \<open>x\<close> the closer one is taken, the even one on a tie.  The upper
  neighbour \<open>10\<^sup>k\<close> is the digit string \<open>10\<^sup>k\<^sup>-\<^sup>1\<close> with the next exponent.
\<close>

definition candidate :: "int \<Rightarrow> int \<Rightarrow> number \<Rightarrow> int \<Rightarrow> nat \<Rightarrow> (int \<times> int) option" where
  "candidate a b x n k =
     (let (p, q) = scaled10 a b (n - int k);
          lo = p div q;
          r = p mod q;
          hi = lo + 1;
          okLo = readsBack lo (n - int k) x;
          okHi = readsBack hi (n - int k) x
      in if okLo \<and> (\<not> okHi \<or> 2 * r < q \<or> (2 * r = q \<and> even lo)) then Some (lo, n)
         else if okHi then (if hi = 10 ^ k then Some (10 ^ (k - 1), n + 1) else Some (hi, n))
         else None)"

text \<open>The least \<open>k\<close> with a candidate; seventeen digits identify every double.\<close>

function shortestFrom :: "int \<Rightarrow> int \<Rightarrow> number \<Rightarrow> int \<Rightarrow> nat \<Rightarrow> int \<times> int" where
  "shortestFrom a b x n k =
     (case candidate a b x n k of
        Some r \<Rightarrow> r
      | None \<Rightarrow>
          if 17 \<le> k then (case scaled10 a b (n - int k) of (p, q) \<Rightarrow> (p div q, n))
          else shortestFrom a b x n (Suc k))"
  by pat_completeness auto
termination
  by (relation "measure (\<lambda>(a, b, x, n, k). 17 - k)") auto

declare shortestFrom.simps [simp del]

definition formatPositive :: "int \<Rightarrow> int \<Rightarrow> jsstring" where
  "formatPositive m e =
     (let (a, b) = scaled m 1 (- e);
          (s, n) = shortestFrom a b (Finite m e) (decimalExponent a b) 1;
          ds = digitsOf (nat s);
          k = int (length ds)
      in if k \<le> n \<and> n \<le> 21 then ds @ replicate (nat (n - k)) 0x30
         else if 0 < n \<and> n \<le> 21 then take (nat n) ds @ str ''.'' @ drop (nat n) ds
         else if - 6 < n \<and> n \<le> 0 then str ''0.'' @ replicate (nat (- n)) 0x30 @ ds
         else
           (if k = 1 then ds else take 1 ds @ str ''.'' @ drop 1 ds)
           @ str ''e'' @ (if n - 1 < 0 then str ''-'' else str ''+'') @ digitsOf (nat \<bar>n - 1\<bar>))"

definition numberToString :: "number \<Rightarrow> jsstring" where
  "numberToString x =
     (case x of
        NaN \<Rightarrow> str ''NaN''
      | Infinity s \<Rightarrow> (if s then str ''-Infinity'' else str ''Infinity'')
      | Finite m e \<Rightarrow>
          if m = 0 then str ''0''
          else if m < 0 then str ''-'' @ formatPositive (- m) e
          else formatPositive m e)"

section \<open>Suggestions\<close>

text \<open>
  \<open>blockParameters\<close> is a \<open>Record<string, unknown>\<close>: an object literal, modelled by its
  properties in the order they are written, with JSON-like values.
\<close>

datatype jsvalue =
    VString jsstring
  | VBoolean bool
  | VNumber number
  | VArray "jsvalue list"
  | VObject "(jsstring \<times> jsvalue) list"

record suggestion =
  type :: jsstring
  sourceElements :: "elem list"
  description :: jsstring
  confidence :: number
  blockParameters :: "(jsstring \<times> jsvalue) list"

text \<open>The value of a decimal literal, the double nearest to \<open>d / q\<close>: \<open>0.85\<close> is \<open>decimal 85 100\<close>.\<close>

definition decimal :: "int \<Rightarrow> int \<Rightarrow> number" where
  "decimal d q = roundRatio d q"

section \<open>The equation detector\<close>

text \<open>\<open>text.match(pattern)?.[0] || text\<close>\<close>

definition matchedOr :: "jsstring \<Rightarrow> regex \<Rightarrow> jsstring" where
  "matchedOr text pattern =
     (case match text pattern of None \<Rightarrow> text
      | Some m \<Rightarrow> if whole m = [] then text else whole m)"

text \<open>The three extractions of the variable; \<open>a || b\<close> on match results takes \<open>b\<close> when \<open>a\<close> is
  \<open>null\<close>, and \<open>variableMatch[1]\<close> counts when it is a non-empty string.\<close>

definition orMatch :: "jsmatch option \<Rightarrow> jsmatch option \<Rightarrow> jsmatch option" where
  "orMatch a b = (case a of None \<Rightarrow> b | Some m \<Rightarrow> Some m)"

definition truthyGroup :: "jsmatch option \<Rightarrow> nat \<Rightarrow> jsstring option" where
  "truthyGroup mo i =
     (case mo of None \<Rightarrow> None
      | Some m \<Rightarrow> (case grp m i of None \<Rightarrow> None | Some g \<Rightarrow> if g = [] then None else Some g))"

definition linearVariable :: "jsstring \<Rightarrow> jsstring" where
  "linearVariable equationText =
     (case truthyGroup (orMatch (match equationText varBeforeEquals)
                                (match equationText leadingTerm)) 1 of
        None \<Rightarrow> str ''x''
      | Some g \<Rightarrow>
          (case match g anyLetter of None \<Rightarrow> str ''x''
           | Some matchedVar \<Rightarrow> toLowerCase (whole matchedVar)))"

definition quadraticVariable :: "jsstring \<Rightarrow> jsstring" where
  "quadraticVariable equationText =
     (case truthyGroup (orMatch (match equationText varBeforeEquals)
                                (match equationText squaredVar)) 1 of
        None \<Rightarrow> str ''x''
      | Some g \<Rightarrow> toLowerCase g)"

definition generalVariable :: "jsstring \<Rightarrow> jsstring" where
  "generalVariable equationText =
     (case truthyGroup (match equationText varBeforeEquals) 1 of
        None \<Rightarrow> str ''x''
      | Some g \<Rightarrow> toLowerCase g)"

text \<open>The suggestion each of the three rules pushes.\<close>

definition equationExplorer :: "elem \<Rightarrow> jsstring \<Rightarrow> number \<Rightarrow> jsstring \<Rightarrow> jsstring \<Rightarrow> suggestion" where
  "equationExplorer element descr conf equationText variable =
     \<lparr>type = str ''equationExplorer'',
      sourceElements = [element],
      description = descr,
      confidence = conf,
      blockParameters =
        [(str ''equation'', VString (trim equationText)),
         (str ''variables'', VArray [VString variable]),
         (str ''range'', VObject [(variable, VArray [VNumber (decimal (- 10) 1), VNumber (decimal 10 1)])]),
         (str ''initialValues'', VObject [(variable, VNumber (decimal 0 1))]),
         (str ''showGraph'', VBoolean True),
         (str ''showFormula'', VBoolean True)]\<rparr>"

text \<open>The body of the loop over the candidates: at most one suggestion is pushed, by the
  first rule that matches.\<close>

definition equationStep :: "elem \<Rightarrow> suggestion list \<Rightarrow> suggestion list" where
  "equationStep element suggestions =
     (let text = textContent (node element) in
      if length text < 3 then suggestions
      else if test linearEquationPattern text then
        (let equationText = matchedOr text linearEquationPattern in
         suggestions @ [equationExplorer element (str ''Interactive Linear Equation Explorer'')
                          (decimal 85 100) equationText (linearVariable equationText)])
      else if test quadraticPattern text then
        (let equationText = matchedOr text quadraticPattern in
         suggestions @ [equationExplorer element (str ''Interactive Quadratic Function Explorer'')
                          (decimal 9 10) equationText (quadraticVariable equationText)])
      else if test mathPattern text then
        (let equationText = matchedOr text mathPattern in
         suggestions @ [equationExplorer element (str ''Interactive Function Explorer'')
                          (decimal 7 10) equationText (generalVariable equationText)])
      else suggestions)"

definition potentialEquations :: "document \<Rightarrow> elem list" where
  "potentialEquations doc =
     querySelectorAll doc [Compound [TypeSel (str ''p'')]]
     @ querySelectorAll doc [Compound [TypeSel (str ''div'')]]
     @ querySelectorAll doc [Compound [TypeSel (str ''span'')]]
     @ querySelectorAll doc [Compound [TypeSel (str ''li'')]]"

definition detectEquationPatterns :: "document \<Rightarrow> suggestion list \<Rightarrow> suggestion list" where
  "detectEquationPatterns doc suggestions =
     foldl (\<lambda>acc element. equationStep element acc) suggestions (potentialEquations doc)"

section \<open>The problem detector\<close>

subsection \<open>Finding the steps that follow a problem\<close>

text \<open>\<open>tagName\<close> of an HTML element is its name in upper case; the analyser lower-cases it.\<close>

definition upperASCII :: "nat \<Rightarrow> nat" where
  "upperASCII c = (if 0x61 \<le> c \<and> c \<le> 0x7A then c - 0x20 else c)"

definition tagName :: "elem \<Rightarrow> jsstring" where
  "tagName e = map upperASCII (localName (node e))"

function nextSiblingFrom :: "elem option \<Rightarrow> jsstring \<Rightarrow> elem option" where
  "nextSiblingFrom None name = None"
| "nextSiblingFrom (Some sibling) name =
     (if toLowerCase (tagName sibling) = toLowerCase name then Some sibling
      else nextSiblingFrom (nextElementSibling sibling) name)"
  by pat_completeness auto
termination
  by (relation "measure (\<lambda>(s, t). case s of None \<Rightarrow> 0 | Some e \<Rightarrow> Suc (length (following e)))")
     (auto simp: nextElementSibling_def split: list.splits)

definition findNextSibling :: "elem \<Rightarrow> jsstring \<Rightarrow> elem option" where
  "findNextSibling element name = nextSiblingFrom (nextElementSibling element) name"

definition findFollowingSteps :: "elem \<Rightarrow> elem option" where
  "findFollowingSteps problemElement =
     (case findNextSibling problemElement (str ''ol'') of
        Some orderedList \<Rightarrow> Some orderedList
      | None \<Rightarrow>
         (case findNextSibling problemElement (str ''ul'') of
            Some unorderedList \<Rightarrow> Some unorderedList
          | None \<Rightarrow>
             (case findNextSibling problemElement (str ''div'') of
                Some divContainer \<Rightarrow>
                  if 1 < length (children divContainer) then Some divContainer else None
              | None \<Rightarrow> None)))"

subsection \<open>The selector built from the element's id\<close>

text \<open>
  \<open>doc.querySelector(`#solution-${element.id}`)\<close> parses a selector that contains the id
  as it stands, and \<open>querySelector\<close> throws a \<open>SyntaxError\<close> on a string that is not a
  selector.  The text after \<open>#\<close> is read as a name as far as name characters go.
  \<^item> When the id has only ASCII name characters (also when it is empty), the string is the
    id selector \<open>#solution-\<dots>\<close>: the first element of the document with that id.
  \<^item> When the name is followed by a parenthesis, a brace, a semicolon or an exclamation
    mark, no selector can continue that way: \<open>SyntaxError\<close>.
  \<^item> Any other string (a combinator, a comma, an escape, a further simple selector, \<dots>)
    is left to the platform's selector engine, a parameter of the analysis.
\<close>

datatype error = SyntaxError

type_synonym selectorEngine = "jsstring \<Rightarrow> document \<Rightarrow> error + elem option"

definition isNameChar :: "nat \<Rightarrow> bool" where
  "isNameChar c \<longleftrightarrow>
     (0x61 \<le> c \<and> c \<le> 0x7A) \<or> (0x41 \<le> c \<and> c \<le> 0x5A) \<or> (0x30 \<le> c \<and> c \<le> 0x39)
     \<or> c = 0x2D \<or> c = 0x5F"

definition cannotFollow :: "nat \<Rightarrow> bool" where               \<comment> \<open>\<open>( ) { } ; !\<close>\<close>
  "cannotFollow c \<longleftrightarrow> c = 0x28 \<or> c = 0x29 \<or> c = 0x7B \<or> c = 0x7D \<or> c = 0x3B \<or> c = 0x21"

definition querySelectorSolution :: "selectorEngine \<Rightarrow> document \<Rightarrow> jsstring \<Rightarrow> error + elem option" where
  "querySelectorSolution engine doc ident =
     (case dropWhile isNameChar ident of
        [] \<Rightarrow> Inr (find (matchesAny (quirks doc) [Compound [IdSel (str ''solution-'' @ ident)]])
                      (allElements doc))
      | c # rest \<Rightarrow>
          if cannotFollow c then Inl SyntaxError
          else engine (str ''#solution-'' @ ident) doc)"

text \<open>
  \<open>element.closest('.problem-container')?.querySelector('.solution') ||
      doc.querySelector(`#solution-${element.id}`) || findFollowingSteps(element)\<close>
\<close>

definition solutionContainer :: "selectorEngine \<Rightarrow> document \<Rightarrow> elem \<Rightarrow> error + elem option" where
  "solutionContainer engine doc element =
     (case (case closest (quirks doc) element [Compound [ClassSel (str ''problem-container'')]] of
              None \<Rightarrow> None
            | Some container \<Rightarrow>
                querySelectorIn (quirks doc) container [Compound [ClassSel (str ''solution'')]]) of
        Some s \<Rightarrow> Inr (Some s)
      | None \<Rightarrow>
         (case querySelectorSolution engine doc (elementId (node element)) of
            Inl err \<Rightarrow> Inl err
          | Inr (Some s) \<Rightarrow> Inr (Some s)
          | Inr None \<Rightarrow> Inr (findFollowingSteps element)))"

subsection \<open>The steps\<close>

definition step :: "jsstring \<Rightarrow> jsstring \<Rightarrow> jsstring \<Rightarrow> jsvalue" where
  "step d e x =
     VObject [(str ''description'', VString d), (str ''expression'', VString e),
              (str ''explanation'', VString x)]"

text \<open>One step for each \<open>li\<close>, \<open>p\<close> and \<open>div.step\<close> inside the container; \<open>index\<close> counts from 0.\<close>

definition stepOfElement :: "nat \<Rightarrow> elem \<Rightarrow> jsvalue" where
  "stepOfElement index stepElement =
     (let stepText = textContent (node stepElement);
          expression = (case match stepText stepExpression of
                          Some expressionMatch \<Rightarrow> whole expressionMatch
                        | None \<Rightarrow> str ''Step '' @ digitsOf (index + 1))
      in step (str ''Step '' @ digitsOf (index + 1)) expression
              (trim (removeFirst stepText expression)))"

definition containerSteps :: "bool \<Rightarrow> elem \<Rightarrow> jsvalue list" where
  "containerSteps q container =
     (let stepElements =
            querySelectorAllIn q container
              [Compound [TypeSel (str ''li'')], Compound [TypeSel (str ''p'')],
               Compound [TypeSel (str ''div''), ClassSel (str ''step'')]]
      in map (\<lambda>(index, stepElement). stepOfElement index stepElement)
             (zip [0 ..< length stepElements] stepElements))"

text \<open>\<open>m?.[1] || d\<close>\<close>

definition groupOr :: "jsmatch option \<Rightarrow> jsstring \<Rightarrow> jsstring" where
  "groupOr mo d = (case truthyGroup mo 1 of None \<Rightarrow> d | Some g \<Rightarrow> g)"

text \<open>The two steps made up from the matched text of the problem, when no container is found.\<close>

definition synthesizedSteps :: "jsmatch \<Rightarrow> jsvalue list" where
  "synthesizedSteps problemMatch =
     (if includesStr (whole problemMatch) (str ''='') then
        (let equation = whole problemMatch in
         if match equation linearShape \<noteq> None then
           (let variable = groupOr (match equation variablePattern) (str ''x'');
                coefficient = parseFloat (groupOr (match equation coefficientPattern) (str ''1''));
                constant = parseFloat (groupOr (match equation constantPattern) (str ''0''));
                rightSide = parseFloat (groupOr (match equation rightSidePattern) (str ''0''));
                isolatedVariable = numSubtract rightSide constant;
                solution = numDivide isolatedVariable coefficient
            in [step (str ''Isolate the variable term'')
                     (numberToString coefficient @ variable @ str '' = ''
                      @ numberToString (numSubtract rightSide constant))
                     (str ''Move constant to the right side by subtracting ''
                      @ numberToString constant @ str '' from both sides.''),
                step (str ''Solve for the variable'')
                     (variable @ str '' = '' @ numberToString solution)
                     (str ''Divide both sides by the coefficient '' @ numberToString coefficient
                      @ str '' to find the value of '' @ variable @ str ''.'')])
         else [])
      else [])"

subsection \<open>The loop over the candidates\<close>

fun firstMatch :: "jsstring \<Rightarrow> regex list \<Rightarrow> jsmatch option" where
  "firstMatch text [] = None"
| "firstMatch text (pattern # patterns) =
     (case match text pattern of Some m \<Rightarrow> Some m | None \<Rightarrow> firstMatch text patterns)"

definition problemSolver :: "elem \<Rightarrow> jsstring \<Rightarrow> jsvalue list \<Rightarrow> suggestion" where
  "problemSolver element text steps =
     \<lparr>type = str ''problem-solver'',
      sourceElements = [element],
      description = str ''Interactive Problem Solver'',
      confidence = decimal 8 10,
      blockParameters =
        [(str ''problem'', VString (trim text)),
         (str ''steps'', VArray steps),
         (str ''showHints'', VBoolean True),
         (str ''progressiveReveal'', VBoolean True),
         (str ''requireUserInput'', VBoolean False),
         (str ''feedbackLevel'', VString (str ''detailed'')),
         (str ''solutionVisible'', VString (str ''after-attempt''))]\<rparr>"

text \<open>The steps for a candidate that is a problem: from the container when there is one,
  made up otherwise.\<close>

definition problemSteps :: "selectorEngine \<Rightarrow> document \<Rightarrow> elem \<Rightarrow> jsmatch \<Rightarrow> error + jsvalue list" where
  "problemSteps engine doc element problemMatch =
     (case solutionContainer engine doc element of
        Inl err \<Rightarrow> Inl err
      | Inr (Some container) \<Rightarrow> Inr (containerSteps (quirks doc) container)
      | Inr None \<Rightarrow> Inr (synthesizedSteps problemMatch))"

definition problemStep :: "selectorEngine \<Rightarrow> document \<Rightarrow> elem \<Rightarrow> suggestion list \<Rightarrow> error + suggestion list" where
  "problemStep engine doc element suggestions =
     (let text = textContent (node element) in
      if length text < 10 then Inr suggestions
      else
        (case firstMatch text problemPatterns of
           None \<Rightarrow> Inr suggestions
         | Some problemMatch \<Rightarrow>
            (case problemSteps engine doc element problemMatch of
               Inl err \<Rightarrow> Inl err
             | Inr steps \<Rightarrow>
                 if 0 < length steps then Inr (suggestions @ [problemSolver element text steps])
                 else Inr suggestions)))"

definition potentialProblems :: "document \<Rightarrow> elem list" where
  "potentialProblems doc =
     querySelectorAll doc [Adjacent [TypeSel (str ''h2'')] [TypeSel (str ''p'')]]
     @ querySelectorAll doc [Adjacent [TypeSel (str ''h3'')] [TypeSel (str ''p'')]]
     @ querySelectorAll doc [Adjacent [TypeSel (str ''h4'')] [TypeSel (str ''p'')]]
     @ querySelectorAll doc [Compound [ClassSel (str ''problem'')]]
     @ querySelectorAll doc [Compound [AttrEquals (str ''data-type'') (str ''problem'')]]
     @ querySelectorAll doc [Compound [TypeSel (str ''p''), Has [TypeSel (str ''strong'')]]]
     @ querySelectorAll doc [Compound [TypeSel (str ''div''), Has [TypeSel (str ''p''), FirstChild]]]"

fun problemLoop :: "selectorEngine \<Rightarrow> document \<Rightarrow> elem list \<Rightarrow> suggestion list \<Rightarrow> error + suggestion list" where
  "problemLoop engine doc [] suggestions = Inr suggestions"
| "problemLoop engine doc (element # elements) suggestions =
     (case problemStep engine doc element suggestions of
        Inl err \<Rightarrow> Inl err
      | Inr suggestions' \<Rightarrow> problemLoop engine doc elements suggestions')"

definition detectProblemSolverPatterns :: "selectorEngine \<Rightarrow> document \<Rightarrow> suggestion list \<Rightarrow> error + suggestion list" where
  "detectProblemSolverPatterns engine doc suggestions =
     problemLoop engine doc (potentialProblems doc) suggestions"

section \<open>The analysis\<close>

text \<open>
  \<open>Array.prototype.sort\<close> with a comparator is stable (ECMAScript 2019): an element moves
  behind another only when the comparator says so with a positive number.  It is written
  as an insertion sort that starts from the end of the array.
\<close>

definition isPositive :: "number \<Rightarrow> bool" where
  "isPositive v = (case v of NaN \<Rightarrow> False | Infinity s \<Rightarrow> \<not> s | Finite m e \<Rightarrow> 0 < m)"

fun insertSorted :: "('a \<Rightarrow> 'a \<Rightarrow> number) \<Rightarrow> 'a \<Rightarrow> 'a list \<Rightarrow> 'a list" where
  "insertSorted cmp x [] = [x]"
| "insertSorted cmp x (y # ys) =
     (if isPositive (cmp x y) then y # insertSorted cmp x ys else x # y # ys)"

definition arraySort :: "('a \<Rightarrow> 'a \<Rightarrow> number) \<Rightarrow> 'a list \<Rightarrow> 'a list" where
  "arraySort cmp xs = foldr (insertSorted cmp) xs []"

text \<open>\<open>(a, b) => b.confidence - a.confidence\<close>\<close>

definition byConfidence :: "suggestion \<Rightarrow> suggestion \<Rightarrow> number" where
  "byConfidence a b = numSubtract (confidence b) (confidence a)"

text \<open>\<open>generateTransformationSuggestions\<close>, from the parsed document on.\<close>

definition generateTransformationSuggestions :: "selectorEngine \<Rightarrow> document \<Rightarrow> error + suggestion list" where
  "generateTransformationSuggestions engine doc =
     (case detectProblemSolverPatterns engine doc (detectEquationPatterns doc []) of
        Inl err \<Rightarrow> Inl err
      | Inr suggestions \<Rightarrow> Inr (arraySort byConfidence suggestions))"

section \<open>Order of numbers, and the documents of the scenarios\<close>

text \<open>\<open>x <= y\<close> on numbers.\<close>

fun lessEq :: "number \<Rightarrow> number \<Rightarrow> bool" where
  "lessEq NaN y = False"
| "lessEq x NaN = False"
| "lessEq (Infinity s) (Infinity t) = (s \<or> \<not> t)"
| "lessEq (Infinity s) (Finite m e) = s"
| "lessEq (Finite m e) (Infinity t) = (\<not> t)"
| "lessEq (Finite m1 e1) (Finite m2 e2) =
     (m1 * 2 ^ nat (e1 - min e1 e2) \<le> m2 * 2 ^ nat (e2 - min e1 e2))"

text \<open>The four confidences of the rules, and their place in increasing order.\<close>

abbreviation ruleConfidence :: "number \<Rightarrow> bool" where
  "ruleConfidence c \<equiv> c = decimal 7 10 \<or> c = decimal 8 10 \<or> c = decimal 85 100 \<or> c = decimal 9 10"

definition rank :: "number \<Rightarrow> nat" where
  "rank c = (if c = decimal 9 10 then 3 else if c = decimal 85 100 then 2
             else if c = decimal 8 10 then 1 else 0)"

text \<open>
  For markup without a doctype that holds only body content, the HTML parser builds a
  quirks-mode document: \<open>html\<close> with an empty \<open>head\<close> and a \<open>body\<close> holding the content.
\<close>

definition htmlBody :: "node list \<Rightarrow> document" where
  "htmlBody content =
     \<lparr>quirks = True,
      documentElement =
        Element (str ''html'') [] [Element (str ''head'') [] [], Element (str ''body'') [] content]\<rparr>"

text \<open>\<^verbatim>\<open><p>y = 2x + 1</p>\<close>\<close>

definition linearDocument :: document where
  "linearDocument = htmlBody [Element (str ''p'') [] [Text (str ''y = 2x + 1'')]]"

text \<open>\<^verbatim>\<open><p>y = x^2 + 2x + 1</p>\<close>\<close>

definition quadraticDocument :: document where
  "quadraticDocument = htmlBody [Element (str ''p'') [] [Text (str ''y = x^2 + 2x + 1'')]]"

text \<open>\<^verbatim>\<open><h3>Problem</h3><p>Solve for x: 2x + 3 = 7</p>\<close>\<close>

definition solveForDocument :: document where
  "solveForDocument =
     htmlBody [Element (str ''h3'') [] [Text (str ''Problem'')],
               Element (str ''p'') [] [Text (str ''Solve for x: 2x + 3 = 7'')]]"

text \<open>\<^verbatim>\<open><h3>Example</h3><p>0x + 3 = 7</p>\<close>\<close>

definition zeroCoefficientDocument :: document where
  "zeroCoefficientDocument =
     htmlBody [Element (str ''h3'') [] [Text (str ''Example'')],
               Element (str ''p'') [] [Text (str ''0x + 3 = 7'')]]"

text \<open>\<^verbatim>\<open><h2>Q</h2><p id="(">Solve for x: 2x + 3 = 7</p>\<close>\<close>

definition parenthesisIdDocument :: document where
  "parenthesisIdDocument =
     htmlBody [Element (str ''h2'') [] [Text (str ''Q'')],
               Element (str ''p'') [(str ''id'', str ''('')] [Text (str ''Solve for x: 2x + 3 = 7'')]]"

text \<open>\<^verbatim>\<open><h2>T</h2><p class="problem"><strong>Solve for x:</strong> 2x + 3 = 7</p><ol><li>2x = 4</li><li>x = 2</li></ol>\<close>\<close>

definition problemParagraph :: node where
  "problemParagraph =
     Element (str ''p'') [(str ''class'', str ''problem'')]
       [Element (str ''strong'') [] [Text (str ''Solve for x:'')], Text (str '' 2x + 3 = 7'')]"

definition workedDocument :: document where
  "workedDocument =
     htmlBody [Element (str ''h2'') [] [Text (str ''T'')],
               problemParagraph,
               Element (str ''ol'') [] [Element (str ''li'') [] [Text (str ''2x = 4'')],
                                        Element (str ''li'') [] [Text (str ''x = 2'')]]]"

text \<open>A selector engine to run the analysis with: it finds nothing.\<close>

definition noMatch :: selectorEngine where
  "noMatch sel doc = Inr None"

text \<open>The suggestions that the scenarios produce.\<close>

definition linearSuggestion :: suggestion where
  "linearSuggestion =
     equationExplorer (allElements linearDocument ! 3) (str ''Interactive Linear Equation Explorer'')
       (decimal 85 100) (str ''y = 2x + 1'') (str ''y'')"

definition quadraticSuggestion :: suggestion where
  "quadraticSuggestion =
     equationExplorer (allElements quadraticDocument ! 3)
       (str ''Interactive Quadratic Function Explorer'') (decimal 9 10) (str ''y = x^2 + 2x + 1'')
       (str ''y'')"

definition solveForSuggestion :: suggestion where
  "solveForSuggestion =
     equationExplorer (allElements solveForDocument ! 4) (str ''Interactive Linear Equation Explorer'')
       (decimal 85 100) (str ''2x + 3 = 7'') (str ''x'')"

definition zeroLinear :: suggestion where
  "zeroLinear =
     equationExplorer (allElements zeroCoefficientDocument ! 4)
       (str ''Interactive Linear Equation Explorer'') (decimal 85 100) (str ''0x + 3 = 7'') (str ''x'')"

definition zeroSteps :: "jsvalue list" where
  "zeroSteps =
     [step (str ''Isolate the variable term'') (str ''0x = 4'')
        (str ''Move constant to the right side by subtracting 3 from both sides.''),
      step (str ''Solve for the variable'') (str ''x = Infinity'')
        (str ''Divide both sides by the coefficient 0 to find the value of x.'')]"

definition zeroProblem :: suggestion where
  "zeroProblem = problemSolver (allElements zeroCoefficientDocument ! 4) (str ''0x + 3 = 7'') zeroSteps"

definition workedLinear :: suggestion where
  "workedLinear =
     equationExplorer (allElements workedDocument ! 4) (str ''Interactive Linear Equation Explorer'')
       (decimal 85 100) (str ''2x + 3 = 7'') (str ''x'')"

definition workedFirst :: suggestion where
  "workedFirst =
     equationExplorer (allElements workedDocument ! 7) (str ''Interactive Function Explorer'')
       (decimal 7 10) (str ''x = 4'') (str ''x'')"

definition workedSecond :: suggestion where
  "workedSecond =
     equationExplorer (allElements workedDocument ! 8) (str ''Interactive Function Explorer'')
       (decimal 7 10) (str ''x = 2'') (str ''x'')"

definition workedProblem :: suggestion where
  "workedProblem =
     problemSolver (allElements workedDocument ! 4) (str ''Solve for x: 2x + 3 = 7'')
       [step (str ''Step 1'') (str ''2x'') (str ''= 4''), step (str ''Step 2'') (str ''x'') (str ''= 2'')]"

section \<open>The objects of a call\<close>

text \<open>
  What could carry from one call of \<open>generateTransformationSuggestions\<close> to the next is the
  state of objects: the \<open>lastIndex\<close> of a \<open>RegExp\<close>, and the contents of an array.  The
  heap holds the \<open>RegExp\<close> objects and the arrays of suggestions; a reference is the index
  of its object, and the heap is what one call leaves to the next.  The documents and
  their elements are never written to and stay values.
\<close>

record regExpObject =
  pattern :: regex
  global :: bool
  sticky :: bool
  lastIndex :: nat

record heap =
  regExps :: "regExpObject list"
  arrays :: "suggestion list list"

text \<open>Evaluating a regular expression literal makes a new object, with \<open>lastIndex\<close> 0.\<close>

definition regExpCreate :: "regex \<Rightarrow> bool \<Rightarrow> bool \<Rightarrow> heap \<Rightarrow> nat \<times> heap" where
  "regExpCreate r g y h =
     (length (regExps h),
      h\<lparr>regExps := regExps h @ [\<lparr>pattern = r, global = g, sticky = y, lastIndex = 0\<rparr>]\<rparr>)"

definition setLastIndex :: "nat \<Rightarrow> nat \<Rightarrow> heap \<Rightarrow> heap" where
  "setLastIndex R n h = h\<lparr>regExps := (regExps h)[R := (regExps h ! R)\<lparr>lastIndex := n\<rparr>]\<rparr>"

text \<open>The leftmost match at or after the start of the string, with the index where it starts;
  and the match at the start alone, for a sticky pattern.\<close>

fun search :: "jsstring \<Rightarrow> regex \<Rightarrow> nat \<Rightarrow> (nat \<times> jsmatch) option" where
  "search [] r i =
     (case rmatch r ([], []) of [] \<Rightarrow> None
      | (s', caps) # _ \<Rightarrow> Some (i, \<lparr>whole = [], groups = caps\<rparr>))"
| "search (c # s) r i =
     (case rmatch r (c # s, []) of [] \<Rightarrow> search s r (Suc i)
      | (s', caps) # _ \<Rightarrow>
          Some (i, \<lparr>whole = take (length (c # s) - length s') (c # s), groups = caps\<rparr>))"

definition matchHere :: "jsstring \<Rightarrow> regex \<Rightarrow> (nat \<times> jsmatch) option" where
  "matchHere s r =
     (case rmatch r (s, []) of [] \<Rightarrow> None
      | (s', caps) # _ \<Rightarrow> Some (0, \<lparr>whole = take (length s - length s') s, groups = caps\<rparr>))"

text \<open>
  \<open>RegExpBuiltinExec\<close>: the search starts at \<open>lastIndex\<close> when the object is global or
  sticky and at 0 otherwise; a global or sticky object gets the end of the match as its
  new \<open>lastIndex\<close>, and 0 when there is no match; any other object is left as it is.
  (A reference is the index of an object of the heap; the first case does not arise.)
\<close>

definition regExpBuiltinExec :: "nat \<Rightarrow> jsstring \<Rightarrow> heap \<Rightarrow> jsmatch option \<times> heap" where
  "regExpBuiltinExec R S h =
     (if length (regExps h) \<le> R then (None, h)
      else
        let obj = regExps h ! R;
            flagged = (global obj \<or> sticky obj);
            start = (if flagged then lastIndex obj else 0)
        in if length S < start then (None, if flagged then setLastIndex R 0 h else h)
           else
             (case (if sticky obj then matchHere (drop start S) (pattern obj)
                    else search (drop start S) (pattern obj) 0) of
                None \<Rightarrow> (None, if flagged then setLastIndex R 0 h else h)
              | Some (i, m) \<Rightarrow>
                  (Some m,
                   if flagged then setLastIndex R (start + i + length (whole m)) h else h)))"

text \<open>\<open>regexp.test(string)\<close>\<close>

definition regExpTest :: "nat \<Rightarrow> jsstring \<Rightarrow> heap \<Rightarrow> bool \<times> heap" where
  "regExpTest R S h = (case regExpBuiltinExec R S h of (m, h') \<Rightarrow> (m \<noteq> None, h'))"

text \<open>
  \<open>string.match(regexp)\<close>: \<open>exec\<close> for an object that is not global.  For a global object
  \<open>lastIndex\<close> is set to 0 and \<open>exec\<close> is repeated until it fails, \<open>lastIndex\<close> moving on by
  one after an empty match; the result is the array of the matched strings (index 0 the
  first, index 1 the second, \<dots>), or \<open>null\<close> when there is none.  Each round moves
  \<open>lastIndex\<close> forward, so there are at most \<open>length + 1\<close> matches.
\<close>

primrec matchAll :: "nat \<Rightarrow> nat \<Rightarrow> jsstring \<Rightarrow> jsstring list \<Rightarrow> heap \<Rightarrow> jsstring list \<times> heap" where
  "matchAll 0 R S A h = (A, h)"
| "matchAll (Suc rounds) R S A h =
     (case regExpBuiltinExec R S h of
        (None, h') \<Rightarrow> (A, h')
      | (Some m, h') \<Rightarrow>
          matchAll rounds R S (A @ [whole m])
            (if whole m = [] then setLastIndex R (Suc (lastIndex (regExps h' ! R))) h' else h'))"

definition stringMatch :: "jsstring \<Rightarrow> nat \<Rightarrow> heap \<Rightarrow> jsmatch option \<times> heap" where
  "stringMatch S R h =
     (if R < length (regExps h) \<and> global (regExps h ! R) then
        (case matchAll (length S + 2) R S [] (setLastIndex R 0 h) of
           ([], h') \<Rightarrow> (None, h')
         | (m # ms, h') \<Rightarrow> (Some \<lparr>whole = m, groups = zip [1 ..< Suc (length ms)] ms\<rparr>, h'))
      else regExpBuiltinExec R S h)"

text \<open>The arrays: \<open>[]\<close>, \<open>push\<close> and \<open>sort\<close>, which sorts the array in place.\<close>

definition arrayCreate :: "heap \<Rightarrow> nat \<times> heap" where
  "arrayCreate h = (length (arrays h), h\<lparr>arrays := arrays h @ [[]]\<rparr>)"

definition push :: "nat \<Rightarrow> suggestion \<Rightarrow> heap \<Rightarrow> heap" where
  "push a x h = h\<lparr>arrays := (arrays h)[a := arrays h ! a @ [x]]\<rparr>"

definition sortInPlace :: "(suggestion \<Rightarrow> suggestion \<Rightarrow> number) \<Rightarrow> nat \<Rightarrow> heap \<Rightarrow> heap" where
  "sortInPlace cmp a h = h\<lparr>arrays := (arrays h)[a := arraySort cmp (arrays h ! a)]\<rparr>"

subsection \<open>The detectors on the heap\<close>

text \<open>
  Every pattern of the analyser is a literal with the flag \<open>i\<close> alone, written inside a
  function: \<open>literal\<close> is the evaluation of such a literal, and \<open>matchLiteral\<close> is
  \<open>string.match(/\<dots>/i)\<close> with the literal in place.
\<close>

definition literal :: "regex \<Rightarrow> heap \<Rightarrow> nat \<times> heap" where
  "literal r h = regExpCreate r False False h"

definition matchLiteral :: "jsstring \<Rightarrow> regex \<Rightarrow> heap \<Rightarrow> jsmatch option \<times> heap" where
  "matchLiteral s r h = (case literal r h of (R, h1) \<Rightarrow> stringMatch s R h1)"

definition wholeOr :: "jsmatch option \<Rightarrow> jsstring \<Rightarrow> jsstring" where    \<comment> \<open>\<open>m?.[0] || text\<close>\<close>
  "wholeOr mo text = (case mo of None \<Rightarrow> text | Some m \<Rightarrow> if whole m = [] then text else whole m)"

definition linearVariableIn :: "jsstring \<Rightarrow> heap \<Rightarrow> jsstring \<times> heap" where
  "linearVariableIn equationText h =
     (case matchLiteral equationText varBeforeEquals h of
        (first, h1) \<Rightarrow>
          (case (case first of Some m \<Rightarrow> (Some m, h1)
                 | None \<Rightarrow> matchLiteral equationText leadingTerm h1) of
             (variableMatch, h2) \<Rightarrow>
               (case truthyGroup variableMatch 1 of
                  None \<Rightarrow> (str ''x'', h2)
                | Some g \<Rightarrow>
                    (case matchLiteral g anyLetter h2 of
                       (None, h3) \<Rightarrow> (str ''x'', h3)
                     | (Some matchedVar, h3) \<Rightarrow> (toLowerCase (whole matchedVar), h3)))))"

definition quadraticVariableIn :: "jsstring \<Rightarrow> heap \<Rightarrow> jsstring \<times> heap" where
  "quadraticVariableIn equationText h =
     (case matchLiteral equationText varBeforeEquals h of
        (first, h1) \<Rightarrow>
          (case (case first of Some m \<Rightarrow> (Some m, h1)
                 | None \<Rightarrow> matchLiteral equationText squaredVar h1) of
             (variableMatch, h2) \<Rightarrow>
               (case truthyGroup variableMatch 1 of
                  None \<Rightarrow> (str ''x'', h2)
                | Some g \<Rightarrow> (toLowerCase g, h2))))"

definition generalVariableIn :: "jsstring \<Rightarrow> heap \<Rightarrow> jsstring \<times> heap" where
  "generalVariableIn equationText h =
     (case matchLiteral equationText varBeforeEquals h of
        (variableMatch, h1) \<Rightarrow>
          (case truthyGroup variableMatch 1 of
             None \<Rightarrow> (str ''x'', h1)
           | Some g \<Rightarrow> (toLowerCase g, h1)))"

text \<open>One rule of the equation detector, once its pattern has matched: the matched text,
  the variable, and the push.\<close>

definition pushExplorer ::
  "elem \<Rightarrow> jsstring \<Rightarrow> number \<Rightarrow> (jsstring \<Rightarrow> heap \<Rightarrow> jsstring \<times> heap) \<Rightarrow> jsstring \<Rightarrow> nat \<Rightarrow> nat \<Rightarrow> heap
   \<Rightarrow> heap" where
  "pushExplorer element descr conf variableIn text R suggestions h =
     (case stringMatch text R h of
        (m, h1) \<Rightarrow>
          (case variableIn (wholeOr m text) h1 of
             (variable, h2) \<Rightarrow>
               push suggestions (equationExplorer element descr conf (wholeOr m text) variable) h2))"

definition equationStepIn :: "elem \<Rightarrow> nat \<Rightarrow> heap \<Rightarrow> heap" where
  "equationStepIn element suggestions h =
     (let text = textContent (node element) in
      if length text < 3 then h
      else
        (case literal linearEquationPattern h of
           (linearR, h1) \<Rightarrow>
             (case regExpTest linearR text h1 of
                (True, h2) \<Rightarrow>
                  pushExplorer element (str ''Interactive Linear Equation Explorer'') (decimal 85 100)
                    linearVariableIn text linearR suggestions h2
              | (False, h2) \<Rightarrow>
                  (case literal quadraticPattern h2 of
                     (quadraticR, h3) \<Rightarrow>
                       (case regExpTest quadraticR text h3 of
                          (True, h4) \<Rightarrow>
                            pushExplorer element (str ''Interactive Quadratic Function Explorer'')
                              (decimal 9 10) quadraticVariableIn text quadraticR suggestions h4
                        | (False, h4) \<Rightarrow>
                            (case literal mathPattern h4 of
                               (mathR, h5) \<Rightarrow>
                                 (case regExpTest mathR text h5 of
                                    (True, h6) \<Rightarrow>
                                      pushExplorer element (str ''Interactive Function Explorer'')
                                        (decimal 7 10) generalVariableIn text mathR suggestions h6
                                  | (False, h6) \<Rightarrow> h6)))))))"

definition detectEquationPatternsIn :: "document \<Rightarrow> nat \<Rightarrow> heap \<Rightarrow> heap" where
  "detectEquationPatternsIn doc suggestions h =
     foldl (\<lambda>h element. equationStepIn element suggestions h) h (potentialEquations doc)"

text \<open>The problem detector: the array of the five patterns is made once in a call, and its
  objects are used for every candidate.\<close>

fun literals :: "regex list \<Rightarrow> heap \<Rightarrow> nat list \<times> heap" where
  "literals [] h = ([], h)"
| "literals (r # rs) h =
     (case literal r h of (R, h1) \<Rightarrow> (case literals rs h1 of (Rs, h2) \<Rightarrow> (R # Rs, h2)))"

fun firstMatchIn :: "jsstring \<Rightarrow> nat list \<Rightarrow> heap \<Rightarrow> jsmatch option \<times> heap" where
  "firstMatchIn text [] h = (None, h)"
| "firstMatchIn text (R # Rs) h =
     (case stringMatch text R h of
        (Some m, h1) \<Rightarrow> (Some m, h1)
      | (None, h1) \<Rightarrow> firstMatchIn text Rs h1)"

definition stepOfElementIn :: "nat \<Rightarrow> elem \<Rightarrow> heap \<Rightarrow> jsvalue \<times> heap" where
  "stepOfElementIn index stepElement h =
     (let stepText = textContent (node stepElement) in
      case matchLiteral stepText stepExpression h of
        (expressionMatch, h1) \<Rightarrow>
          (let expression = (case expressionMatch of
                               Some m \<Rightarrow> whole m
                             | None \<Rightarrow> str ''Step '' @ digitsOf (index + 1))
           in (step (str ''Step '' @ digitsOf (index + 1)) expression
                 (trim (removeFirst stepText expression)), h1)))"

fun mapStepsIn :: "nat \<Rightarrow> elem list \<Rightarrow> heap \<Rightarrow> jsvalue list \<times> heap" where
  "mapStepsIn index [] h = ([], h)"
| "mapStepsIn index (stepElement # stepElements) h =
     (case stepOfElementIn index stepElement h of
        (v, h1) \<Rightarrow> (case mapStepsIn (Suc index) stepElements h1 of (vs, h2) \<Rightarrow> (v # vs, h2)))"

definition containerStepsIn :: "bool \<Rightarrow> elem \<Rightarrow> heap \<Rightarrow> jsvalue list \<times> heap" where
  "containerStepsIn q container h =
     mapStepsIn 0
       (querySelectorAllIn q container
          [Compound [TypeSel (str ''li'')], Compound [TypeSel (str ''p'')],
           Compound [TypeSel (str ''div''), ClassSel (str ''step'')]]) h"

definition synthesizedStepsIn :: "jsmatch \<Rightarrow> heap \<Rightarrow> jsvalue list \<times> heap" where
  "synthesizedStepsIn problemMatch h =
     (if includesStr (whole problemMatch) (str ''='') then
        (let equation = whole problemMatch in
         case matchLiteral equation linearShape h of
           (None, h1) \<Rightarrow> ([], h1)
         | (Some shape, h1) \<Rightarrow>
            (case matchLiteral equation variablePattern h1 of
               (variableMatch, h2) \<Rightarrow>
            (case matchLiteral equation coefficientPattern h2 of
               (coefficientMatch, h3) \<Rightarrow>
            (case matchLiteral equation constantPattern h3 of
               (constantMatch, h4) \<Rightarrow>
            (case matchLiteral equation rightSidePattern h4 of
               (rightSideMatch, h5) \<Rightarrow>
                 (let variable = groupOr variableMatch (str ''x'');
                      coefficient = parseFloat (groupOr coefficientMatch (str ''1''));
                      constant = parseFloat (groupOr constantMatch (str ''0''));
                      rightSide = parseFloat (groupOr rightSideMatch (str ''0''));
                      isolatedVariable = numSubtract rightSide constant;
                      solution = numDivide isolatedVariable coefficient
                  in ([step (str ''Isolate the variable term'')
                         (numberToString coefficient @ variable @ str '' = ''
                          @ numberToString (numSubtract rightSide constant))
                         (str ''Move constant to the right side by subtracting ''
                          @ numberToString constant @ str '' from both sides.''),
                       step (str ''Solve for the variable'')
                         (variable @ str '' = '' @ numberToString solution)
                         (str ''Divide both sides by the coefficient ''
                          @ numberToString coefficient
                          @ str '' to find the value of '' @ variable @ str ''.'')], h5)))))))
      else ([], h))"

text \<open>A candidate of the problem detector; \<open>Some err\<close> is the exception that ends the call.\<close>

definition problemStepIn ::
  "selectorEngine \<Rightarrow> document \<Rightarrow> nat list \<Rightarrow> elem \<Rightarrow> nat \<Rightarrow> heap \<Rightarrow> error option \<times> heap" where
  "problemStepIn engine doc patterns element suggestions h =
     (let text = textContent (node element) in
      if length text < 10 then (None, h)
      else
        (case firstMatchIn text patterns h of
           (None, h1) \<Rightarrow> (None, h1)
         | (Some problemMatch, h1) \<Rightarrow>
            (case solutionContainer engine doc element of
               Inl err \<Rightarrow> (Some err, h1)
             | Inr found \<Rightarrow>
                (case (case found of
                         Some container \<Rightarrow> containerStepsIn (quirks doc) container h1
                       | None \<Rightarrow> synthesizedStepsIn problemMatch h1) of
                   (steps, h2) \<Rightarrow>
                     if 0 < length steps
                     then (None, push suggestions (problemSolver element text steps) h2)
                     else (None, h2)))))"

fun problemLoopIn ::
  "selectorEngine \<Rightarrow> document \<Rightarrow> nat list \<Rightarrow> elem list \<Rightarrow> nat \<Rightarrow> heap \<Rightarrow> error option \<times> heap" where
  "problemLoopIn engine doc patterns [] suggestions h = (None, h)"
| "problemLoopIn engine doc patterns (element # elements) suggestions h =
     (case problemStepIn engine doc patterns element suggestions h of
        (Some err, h1) \<Rightarrow> (Some err, h1)
      | (None, h1) \<Rightarrow> problemLoopIn engine doc patterns elements suggestions h1)"

definition detectProblemSolverPatternsIn ::
  "selectorEngine \<Rightarrow> document \<Rightarrow> nat \<Rightarrow> heap \<Rightarrow> error option \<times> heap" where
  "detectProblemSolverPatternsIn engine doc suggestions h =
     (case literals problemPatterns h of
        (patterns, h1) \<Rightarrow> problemLoopIn engine doc patterns (potentialProblems doc) suggestions h1)"

text \<open>
  A call of \<open>generateTransformationSuggestions\<close> on the heap: it makes the array, runs the
  two detectors on it, sorts it in place and returns it (the reference), or ends with
  the exception.
\<close>

definition call :: "selectorEngine \<Rightarrow> document \<Rightarrow> heap \<Rightarrow> (error + nat) \<times> heap" where
  "call engine doc h =
     (case arrayCreate h of
        (suggestions, h1) \<Rightarrow>
          (case detectProblemSolverPatternsIn engine doc suggestions
                  (detectEquationPatternsIn doc suggestions h1) of
             (Some err, h2) \<Rightarrow> (Inl err, h2)
           | (None, h2) \<Rightarrow> (Inr suggestions, sortInPlace byConfidence suggestions h2)))"

text \<open>Two calls on the same input, the second on the heap that the first has left; each
  result is read when the second call has returned.\<close>

definition resultOf :: "heap \<Rightarrow> error + nat \<Rightarrow> error + suggestion list" where
  "resultOf h r = (case r of Inl err \<Rightarrow> Inl err | Inr a \<Rightarrow> Inr (arrays h ! a))"

definition twoCalls ::
  "selectorEngine \<Rightarrow> document \<Rightarrow> heap \<Rightarrow> (error + suggestion list) \<times> (error + suggestion list)" where
  "twoCalls engine doc h =
     (case call engine doc h of
        (first, h1) \<Rightarrow>
          (case call engine doc h1 of
             (second, h2) \<Rightarrow> (resultOf h2 first, resultOf h2 second)))"

text \<open>A heap with further \<open>RegExp\<close> objects, and a heap with further suggestions in one array;
  the object that a literal makes.\<close>

definition grow :: "regExpObject list \<Rightarrow> heap \<Rightarrow> heap" where
  "grow objs h = h\<lparr>regExps := regExps h @ objs\<rparr>"

definition appended :: "nat \<Rightarrow> suggestion list \<Rightarrow> heap \<Rightarrow> heap" where
  "appended a new h = h\<lparr>arrays := (arrays h)[a := arrays h ! a @ new]\<rparr>"

definition plainObject :: "regex \<Rightarrow> regExpObject" where
  "plainObject r = \<lparr>pattern = r, global = False, sticky = False, lastIndex = 0\<rparr>"

definition holds :: "heap \<Rightarrow> nat \<Rightarrow> regex \<Rightarrow> bool" where
  "holds h R r \<longleftrightarrow> R < length (regExps h) \<and> regExps h ! R = plainObject r"

section \<open>Evaluation and invariants\<close>

subsection \<open>Numbers of the rules\<close>

lemmas roundEval =
  roundRatio_def roundQuotient_def scaled_def bitLength.simps normalise.simps negate_def Let_def

lemma decimal_85: "decimal 85 100 = Finite 7656119366529843 (- 53)"
  by (simp add: decimal_def roundEval)

lemma decimal_9: "decimal 9 10 = Finite 8106479329266893 (- 53)"
  by (simp add: decimal_def roundEval)

lemma decimal_8: "decimal 8 10 = Finite 3602879701896397 (- 52)"
  by (simp add: decimal_def roundEval)

lemma decimal_7: "decimal 7 10 = Finite 3152519739159347 (- 52)"
  by (simp add: decimal_def roundEval)

lemmas confidences = decimal_85 decimal_9 decimal_8 decimal_7

lemma comparator_rank:
  assumes "ruleConfidence a" and "ruleConfidence b"
  shows "isPositive (numSubtract b a) \<longleftrightarrow> rank a < rank b"
  using assms unfolding rank_def confidences
  by (elim disjE; simp add: isPositive_def roundEval)

lemma lessEq_rank:
  assumes "ruleConfidence a" and "ruleConfidence b"
  shows "lessEq b a \<longleftrightarrow> rank b \<le> rank a"
  using assms unfolding rank_def confidences
  by (elim disjE; simp)

lemma rank_inj:
  assumes "ruleConfidence a" and "ruleConfidence b" and "rank a = rank b"
  shows "a = b"
  using assms unfolding rank_def confidences
  by (elim disjE; simp)

subsection \<open>Sorting\<close>

lemma insertSorted_insort:
  assumes "\<forall>y \<in> set ys. isPositive (cmp x y) \<longleftrightarrow> k x < k y"
  shows "insertSorted cmp x ys = insort_key (\<lambda>z. - int (k z)) x ys"
  using assms by (induction ys) auto

lemma arraySort_sort_key:
  assumes "\<forall>x \<in> set xs. \<forall>y \<in> set xs. isPositive (cmp x y) \<longleftrightarrow> k x < k y"
  shows "arraySort cmp xs = sort_key (\<lambda>z. - int (k z)) xs"
  using assms
proof (induction xs)
  case Nil
  then show ?case by (simp add: arraySort_def)
next
  case (Cons x xs)
  have rest: "arraySort cmp xs = sort_key (\<lambda>z. - int (k z)) xs"
    using Cons by simp
  have "\<forall>y \<in> set (sort_key (\<lambda>z. - int (k z)) xs). isPositive (cmp x y) \<longleftrightarrow> k x < k y"
    using Cons.prems by simp
  then have "insertSorted cmp x (sort_key (\<lambda>z. - int (k z)) xs)
             = insort_key (\<lambda>z. - int (k z)) x (sort_key (\<lambda>z. - int (k z)) xs)"
    by (rule insertSorted_insort)
  then show ?case
    using rest by (simp add: arraySort_def)
qed

subsection \<open>What the detectors push\<close>

lemma equationStep_invariant:
  assumes "\<forall>s \<in> set acc. P s"
    and "\<And>e d c t v. c = decimal 85 100 \<or> c = decimal 9 10 \<or> c = decimal 7 10
           \<Longrightarrow> P (equationExplorer e d c t v)"
  shows "\<forall>s \<in> set (equationStep element acc). P s"
  using assms by (auto simp: equationStep_def Let_def)

lemma detectEquationPatterns_invariant:
  assumes "\<forall>s \<in> set acc. P s"
    and eq: "\<And>e d c t v. c = decimal 85 100 \<or> c = decimal 9 10 \<or> c = decimal 7 10
           \<Longrightarrow> P (equationExplorer e d c t v)"
  shows "\<forall>s \<in> set (detectEquationPatterns doc acc). P s"
proof -
  have "\<forall>s \<in> set (foldl (\<lambda>acc element. equationStep element acc) acc es). P s" for es
    using assms(1)
  proof (induction es arbitrary: acc)
    case Nil
    then show ?case by simp
  next
    case (Cons e es)
    have "\<forall>s \<in> set (equationStep e acc). P s"
      using Cons.prems eq by (rule equationStep_invariant)
    then show ?case
      using Cons.IH by simp
  qed
  then show ?thesis
    by (simp add: detectEquationPatterns_def)
qed

lemma problemStep_cases:
  assumes "problemStep engine doc element acc = Inr acc'"
  shows "acc' = acc \<or> (\<exists>steps. steps \<noteq> [] \<and>
           acc' = acc @ [problemSolver element (textContent (node element)) steps])"
  using assms
  by (auto simp: problemStep_def Let_def split: if_splits option.splits sum.splits)

lemma problemLoop_invariant:
  assumes "problemLoop engine doc es acc = Inr result"
    and "\<forall>s \<in> set acc. P s"
    and ps: "\<And>e t steps. steps \<noteq> [] \<Longrightarrow> P (problemSolver e t steps)"
  shows "\<forall>s \<in> set result. P s"
  using assms(1,2)
proof (induction es arbitrary: acc)
  case Nil
  then show ?case by simp
next
  case (Cons e es)
  from Cons.prems(1) obtain acc' where
    step: "problemStep engine doc e acc = Inr acc'" and
    rest: "problemLoop engine doc es acc' = Inr result"
    by (auto split: sum.splits)
  have "\<forall>s \<in> set acc'. P s"
    using problemStep_cases [OF step] Cons.prems(2) ps by auto
  with rest show ?case
    by (rule Cons.IH)
qed

lemma detected_invariant:
  assumes "detectProblemSolverPatterns engine doc (detectEquationPatterns doc []) = Inr detected"
    and eq: "\<And>e d c t v. c = decimal 85 100 \<or> c = decimal 9 10 \<or> c = decimal 7 10
           \<Longrightarrow> P (equationExplorer e d c t v)"
    and ps: "\<And>e t steps. steps \<noteq> [] \<Longrightarrow> P (problemSolver e t steps)"
  shows "\<forall>s \<in> set detected. P s"
proof -
  have "\<forall>s \<in> set (detectEquationPatterns doc []). P s"
    by (rule detectEquationPatterns_invariant) (use eq in auto)
  with assms(1) show ?thesis
    unfolding detectProblemSolverPatterns_def
    by (rule problemLoop_invariant) (use ps in auto)
qed

lemma set_arraySort: "set (arraySort cmp xs) = set xs"
proof -
  have ins: "set (insertSorted cmp x ys) = insert x (set ys)" for x ys
    by (induction ys) auto
  show ?thesis
    by (induction xs) (simp_all add: arraySort_def ins)
qed

lemma generated_invariant:
  assumes "generateTransformationSuggestions engine doc = Inr result"
    and eq: "\<And>e d c t v. c = decimal 85 100 \<or> c = decimal 9 10 \<or> c = decimal 7 10
           \<Longrightarrow> P (equationExplorer e d c t v)"
    and ps: "\<And>e t steps. steps \<noteq> [] \<Longrightarrow> P (problemSolver e t steps)"
  shows "\<forall>s \<in> set result. P s"
proof -
  from assms(1) obtain detected where
    d: "detectProblemSolverPatterns engine doc (detectEquationPatterns doc []) = Inr detected"
    and r: "result = arraySort byConfidence detected"
    by (auto simp: generateTransformationSuggestions_def split: sum.splits)
  have "\<forall>s \<in> set detected. P s"
    using d eq ps by (rule detected_invariant)
  then show ?thesis
    by (simp add: r set_arraySort)
qed


lemmas parseEval = parseFloat_def isDigit_def digitsValue_def roundEval
lemmas printEval = numberToString_def formatPositive_def decimalExponent_def expUp.simps expDown.simps
  shortestFrom.simps candidate_def readsBack_def scaled10_def digitsOf.simps roundEval

lemmas classEval = str_def one_def letter_def digitDot_def plusMinus_def operator_def space_def
  anyChar_def seqs_def letterI_def word_def inClass_def
lemmas patternEval = linearEquationPattern_def quadraticPattern_def mathPattern_def
  varBeforeEquals_def leadingTerm_def anyLetter_def squared_def squaredVar_def exprChar_def
  problemPatterns_def stepExpression_def linearShape_def variablePattern_def
  coefficientPattern_def constantPattern_def rightSidePattern_def
lemmas domEval = allElements_def querySelectorAll_def matchesAny_def matchesCompound_def
  descendants_def previousElementSibling_def nextElementSibling_def getAttribute_def
  classList_def sameIdent_def elementId_def children_def querySelectorAllIn_def
  querySelectorIn_def htmlBody_def isASCIIWhitespace_def toLowerCase_def lowerASCII_def
lemmas stringEval = trim_def isWhiteSpace_def isLineTerminator_def toLowerCase_def lowerASCII_def
lemmas equationEval = equationStep_def test_def matchedOr_def linearVariable_def
  quadraticVariable_def generalVariable_def orMatch_def truthyGroup_def grp_def Let_def
lemmas problemEval = problemStep_def problemSteps_def solutionContainer_def
  querySelectorSolution_def isNameChar_def cannotFollow_def findFollowingSteps_def
  findNextSibling_def tagName_def upperASCII_def containerSteps_def stepOfElement_def
  synthesizedSteps_def groupOr_def truthyGroup_def grp_def Let_def

lemma length_str: "length (str s) = length s"
  by (simp add: str_def)

lemmas scenarioDefs = linearSuggestion_def quadraticSuggestion_def solveForSuggestion_def
  zeroLinear_def zeroSteps_def zeroProblem_def workedLinear_def workedFirst_def workedSecond_def
  workedProblem_def

lemma zero_equations:
  "potentialEquations zeroCoefficientDocument = [allElements zeroCoefficientDocument ! 4]"
  by (simp add: potentialEquations_def zeroCoefficientDocument_def domEval str_def)

lemma zero_problems:
  "potentialProblems zeroCoefficientDocument = [allElements zeroCoefficientDocument ! 4]"
  by (simp add: potentialProblems_def zeroCoefficientDocument_def domEval str_def)

lemma zero_text:
  "textContent (node (allElements zeroCoefficientDocument ! 4)) = str ''0x + 3 = 7''"
  by (simp add: zeroCoefficientDocument_def domEval)

lemma zero_equation:
  "equationStep (allElements zeroCoefficientDocument ! 4) [] =
     [zeroLinear]"
  by (simp add: equationStep_def zero_text scenarioDefs)
     (simp add: equationEval classEval patternEval stringEval)

lemma zero_match:
  "firstMatch (str ''0x + 3 = 7'') problemPatterns =
     Some \<lparr>whole = str ''0x + 3 = 7'',
           groups = [(3, str ''7''), (2, str ''3''), (1, str ''0x'')]\<rparr>"
  by (simp add: classEval patternEval)

lemma zero_container:
  "solutionContainer engine zeroCoefficientDocument (allElements zeroCoefficientDocument ! 4) = Inr None"
  by (simp add: zeroCoefficientDocument_def domEval problemEval str_def)

lemma parse_0: "parseFloat (str ''0'') = Finite 0 0"
  by (simp add: parseEval str_def)

lemma parse_3: "parseFloat (str ''3'') = Finite 3 0"
  by (simp add: parseEval str_def)

lemma parse_7: "parseFloat (str ''7'') = Finite 7 0"
  by (simp add: parseEval str_def)

lemma subtract_7_3: "numSubtract (Finite 7 0) (Finite 3 0) = Finite 1 2"
  by (simp add: roundEval)

lemma print_0: "numberToString (Finite 0 0) = str ''0''"
  by (simp add: numberToString_def)

lemma print_3: "numberToString (Finite 3 0) = str ''3''"
  by (simp add: printEval str_def)

lemma print_4: "numberToString (Finite 1 2) = str ''4''"
  by (simp add: printEval str_def)

lemma print_Infinity: "numberToString (Infinity False) = str ''Infinity''"
  by (simp add: numberToString_def)

lemma zero_steps:
  "synthesizedSteps \<lparr>whole = str ''0x + 3 = 7'', groups = g\<rparr> =
     zeroSteps"
  by (simp add: synthesizedSteps_def zeroSteps_def groupOr_def truthyGroup_def grp_def classEval
        patternEval parseEval printEval)

lemma zero_problem:
  "problemStep engine zeroCoefficientDocument (allElements zeroCoefficientDocument ! 4) acc =
     Inr (acc @ [zeroProblem])"
  by (simp add: problemStep_def problemSteps_def zero_text zero_match zero_container zero_steps
        zeroProblem_def zeroSteps_def Let_def length_str)

lemma zero_detected:
  "detectProblemSolverPatterns engine zeroCoefficientDocument
     (detectEquationPatterns zeroCoefficientDocument []) =
   Inr [zeroLinear,
        zeroProblem]"
  by (simp add: detectProblemSolverPatterns_def detectEquationPatterns_def zero_equations
        zero_problems zero_equation zero_problem)

lemma zero_result:
  "generateTransformationSuggestions engine zeroCoefficientDocument =
   Inr [zeroLinear,
        zeroProblem]"
  by (simp add: generateTransformationSuggestions_def zero_detected arraySort_def byConfidence_def
        zeroLinear_def zeroProblem_def equationExplorer_def problemSolver_def confidences
        isPositive_def roundEval)

subsection \<open>The linear and the quadratic scenario\<close>

lemma linear_candidates:
  "potentialEquations linearDocument = [allElements linearDocument ! 3]"
  "potentialProblems linearDocument = []"
  "textContent (node (allElements linearDocument ! 3)) = str ''y = 2x + 1''"
  by (simp_all add: potentialEquations_def potentialProblems_def linearDocument_def domEval str_def)

lemma linear_equation:
  "equationStep (allElements linearDocument ! 3) [] =
     [linearSuggestion]"
  by (simp add: equationStep_def linear_candidates scenarioDefs)
     (simp add: equationEval classEval patternEval stringEval)

lemma linear_result:
  "generateTransformationSuggestions engine linearDocument =
     Inr [linearSuggestion]"
  by (simp add: generateTransformationSuggestions_def detectProblemSolverPatterns_def
        detectEquationPatterns_def linear_candidates linear_equation arraySort_def)

lemma quadratic_candidates:
  "potentialEquations quadraticDocument = [allElements quadraticDocument ! 3]"
  "potentialProblems quadraticDocument = []"
  "textContent (node (allElements quadraticDocument ! 3)) = str ''y = x^2 + 2x + 1''"
  by (simp_all add: potentialEquations_def potentialProblems_def quadraticDocument_def domEval str_def)

lemma quadratic_not_linear:
  "\<not> test linearEquationPattern (str ''y = x^2 + 2x + 1'')"
  by (simp add: test_def classEval patternEval)

lemma quadratic_equation:
  "equationStep (allElements quadraticDocument ! 3) [] =
     [quadraticSuggestion]"
  by (simp add: equationStep_def quadratic_candidates quadratic_not_linear length_str scenarioDefs)
     (simp add: equationEval classEval patternEval stringEval)

lemma quadratic_result:
  "generateTransformationSuggestions engine quadraticDocument =
     Inr [quadraticSuggestion]"
  by (simp add: generateTransformationSuggestions_def detectProblemSolverPatterns_def
        detectEquationPatterns_def quadratic_candidates quadratic_equation arraySort_def)

subsection \<open>The problem without a list of steps\<close>

lemma solveFor_candidates:
  "potentialEquations solveForDocument = [allElements solveForDocument ! 4]"
  "potentialProblems solveForDocument = [allElements solveForDocument ! 4]"
  "textContent (node (allElements solveForDocument ! 4)) = str ''Solve for x: 2x + 3 = 7''"
  by (simp_all add: potentialEquations_def potentialProblems_def solveForDocument_def domEval str_def)

lemma solveFor_equation:
  "equationStep (allElements solveForDocument ! 4) [] =
     [solveForSuggestion]"
  by (simp add: equationStep_def solveFor_candidates scenarioDefs)
     (simp add: equationEval classEval patternEval stringEval)

lemma solveFor_match:
  "firstMatch (str ''Solve for x: 2x + 3 = 7'') problemPatterns =
     Some \<lparr>whole = str ''Solve for x: '', groups = [(2, []), (1, str ''x'')]\<rparr>"
  by (simp add: classEval patternEval)

lemma solveFor_container:
  "solutionContainer engine solveForDocument (allElements solveForDocument ! 4) = Inr None"
  by (simp add: solveForDocument_def domEval problemEval str_def)

lemma solveFor_steps:
  "synthesizedSteps \<lparr>whole = str ''Solve for x: '', groups = g\<rparr> = []"
  by (simp add: synthesizedSteps_def str_def)

lemma solveFor_problem:
  "problemStep engine solveForDocument (allElements solveForDocument ! 4) acc = Inr acc"
  by (simp add: problemStep_def problemSteps_def solveFor_candidates solveFor_match
        solveFor_container solveFor_steps Let_def length_str)

lemma solveFor_result:
  "generateTransformationSuggestions engine solveForDocument =
     Inr [solveForSuggestion]"
  by (simp add: generateTransformationSuggestions_def detectProblemSolverPatterns_def
        detectEquationPatterns_def solveFor_candidates solveFor_equation solveFor_problem
        arraySort_def)

subsection \<open>The id that is no selector\<close>

lemma parenthesis_candidates:
  "potentialProblems parenthesisIdDocument = [allElements parenthesisIdDocument ! 4]"
  "textContent (node (allElements parenthesisIdDocument ! 4)) = str ''Solve for x: 2x + 3 = 7''"
  "elementId (node (allElements parenthesisIdDocument ! 4)) = str ''(''"
  by (simp_all add: potentialProblems_def parenthesisIdDocument_def domEval str_def)

lemma parenthesis_container:
  "solutionContainer engine parenthesisIdDocument (allElements parenthesisIdDocument ! 4)
   = Inl SyntaxError"
  by (simp add: solutionContainer_def parenthesis_candidates)
     (simp add: parenthesisIdDocument_def domEval querySelectorSolution_def isNameChar_def
        cannotFollow_def str_def)

lemma parenthesis_problem:
  "problemStep engine parenthesisIdDocument (allElements parenthesisIdDocument ! 4) acc
   = Inl SyntaxError"
  by (simp add: problemStep_def problemSteps_def parenthesis_candidates solveFor_match
        parenthesis_container Let_def length_str)

lemma parenthesis_result:
  "generateTransformationSuggestions engine parenthesisIdDocument = Inl SyntaxError"
  by (simp add: generateTransformationSuggestions_def detectProblemSolverPatterns_def
        parenthesis_candidates parenthesis_problem)

subsection \<open>The paragraph that three selectors find\<close>

lemma worked_candidates:
  "potentialEquations workedDocument =
     [allElements workedDocument ! 4, allElements workedDocument ! 7, allElements workedDocument ! 8]"
  "potentialProblems workedDocument =
     [allElements workedDocument ! 4, allElements workedDocument ! 4, allElements workedDocument ! 4]"
  "textContent (node (allElements workedDocument ! 4)) = str ''Solve for x: 2x + 3 = 7''"
  "textContent (node (allElements workedDocument ! 7)) = str ''2x = 4''"
  "textContent (node (allElements workedDocument ! 8)) = str ''x = 2''"
  by (simp_all add: potentialEquations_def potentialProblems_def workedDocument_def
        problemParagraph_def domEval str_def)

lemma worked_equation_4:
  "equationStep (allElements workedDocument ! 4) acc =
     acc @ [workedLinear]"
  by (simp add: equationStep_def worked_candidates scenarioDefs)
     (simp add: equationEval classEval patternEval stringEval)

lemma worked_equation_7:
  "equationStep (allElements workedDocument ! 7) acc =
     acc @ [workedFirst]"
  by (simp add: equationStep_def worked_candidates scenarioDefs)
     (simp add: equationEval classEval patternEval stringEval)

lemma worked_equation_8:
  "equationStep (allElements workedDocument ! 8) acc =
     acc @ [workedSecond]"
  by (simp add: equationStep_def worked_candidates scenarioDefs)
     (simp add: equationEval classEval patternEval stringEval)

lemma worked_steps:
  "problemSteps engine workedDocument (allElements workedDocument ! 4) m =
     Inr [step (str ''Step 1'') (str ''2x'') (str ''= 4''),
          step (str ''Step 2'') (str ''x'') (str ''= 2'')]"
  by (simp add: problemSteps_def workedDocument_def problemParagraph_def domEval problemEval
        stringEval classEval patternEval digitsOf.simps step_def upt_rec)

lemma worked_problem:
  "problemStep engine workedDocument (allElements workedDocument ! 4) acc =
     Inr (acc @ [workedProblem])"
  by (simp add: problemStep_def worked_candidates solveFor_match worked_steps workedProblem_def
        Let_def length_str)

lemma worked_detected:
  "detectProblemSolverPatterns engine workedDocument (detectEquationPatterns workedDocument []) =
   Inr [workedLinear,
        workedFirst,
        workedSecond,
        workedProblem,
        workedProblem,
        workedProblem]"
  by (simp add: detectProblemSolverPatterns_def detectEquationPatterns_def worked_candidates
        worked_equation_4 worked_equation_7 worked_equation_8 worked_problem)

lemma sort_worked:
  assumes "confidence a = decimal 85 100" "confidence b = decimal 7 10"
    "confidence c = decimal 7 10" "confidence p = decimal 8 10"
  shows "arraySort byConfidence [a, b, c, p, p, p] = [a, p, p, p, b, c]"
  by (simp add: arraySort_def byConfidence_def assms comparator_rank)
     (simp add: rank_def confidences)

lemma worked_result:
  "generateTransformationSuggestions engine workedDocument =
   Inr [workedLinear,
        workedProblem,
        workedProblem,
        workedProblem,
        workedFirst,
        workedSecond]"
  unfolding generateTransformationSuggestions_def worked_detected
  by (simp add: sort_worked scenarioDefs equationExplorer_def problemSolver_def)

lemma detected_confidence:
  assumes "detectProblemSolverPatterns engine doc (detectEquationPatterns doc []) = Inr detected"
  shows "\<forall>s \<in> set detected. ruleConfidence (confidence s)"
  using assms
proof (rule detected_invariant)
  fix e d c t v
  assume "c = decimal 85 100 \<or> c = decimal 9 10 \<or> c = decimal 7 10"
  then show "ruleConfidence (confidence (equationExplorer e d c t v))"
    unfolding equationExplorer_def by (elim disjE) simp_all
next
  fix e t and steps :: "jsvalue list"
  show "ruleConfidence (confidence (problemSolver e t steps))"
    by (simp add: problemSolver_def)
qed

lemma byConfidence_rank:
  assumes "ruleConfidence (confidence x)" and "ruleConfidence (confidence y)"
  shows "isPositive (byConfidence x y) \<longleftrightarrow> rank (confidence x) < rank (confidence y)"
  unfolding byConfidence_def using assms by (rule comparator_rank)

lemma arraySort_byConfidence:
  assumes "\<forall>s \<in> set xs. ruleConfidence (confidence s)"
  shows "arraySort byConfidence xs = sort_key (\<lambda>s. - int (rank (confidence s))) xs"
proof (rule arraySort_sort_key, intro ballI)
  fix x y
  assume "x \<in> set xs" and "y \<in> set xs"
  then have "ruleConfidence (confidence x)" and "ruleConfidence (confidence y)"
    using assms by blast+
  then show "isPositive (byConfidence x y) \<longleftrightarrow> rank (confidence x) < rank (confidence y)"
    by (rule byConfidence_rank)
qed

lemma sorted_arraySort:
  assumes conf: "\<forall>s \<in> set xs. ruleConfidence (confidence s)"
  shows "sorted_wrt (\<lambda>a b. lessEq (confidence b) (confidence a)) (arraySort byConfidence xs)"
proof -
  let ?f = "\<lambda>s. - int (rank (confidence s))"
  have "sorted (map ?f (sort_key ?f xs))"
    by (rule sorted_sort_key)
  then have by_rank: "sorted_wrt (\<lambda>a b. ?f a \<le> ?f b) (sort_key ?f xs)"
    by (simp only: sorted_map)
  have "sorted_wrt (\<lambda>a b. lessEq (confidence b) (confidence a)) (sort_key ?f xs)"
  proof (rule sorted_wrt_mono_rel [OF _ by_rank])
    fix a b
    assume "a \<in> set (sort_key ?f xs)" and "b \<in> set (sort_key ?f xs)" and le: "?f a \<le> ?f b"
    then have a: "ruleConfidence (confidence a)" and b: "ruleConfidence (confidence b)"
      using conf by (simp_all only: set_sort)
    have "rank (confidence b) \<le> rank (confidence a)"
      using le by linarith
    then show "lessEq (confidence b) (confidence a)"
      by (simp only: lessEq_rank [OF a b])
  qed
  then show ?thesis
    by (simp only: arraySort_byConfidence [OF conf])
qed

lemma stable_arraySort:
  assumes conf: "\<forall>s \<in> set xs. ruleConfidence (confidence s)"
  shows "filter (\<lambda>s. confidence s = c) (arraySort byConfidence xs) = filter (\<lambda>s. confidence s = c) xs"
proof (cases "ruleConfidence c")
  case True
  let ?f = "\<lambda>s. - int (rank (confidence s))"
  have same: "(confidence s = c) = (?f s = - int (rank c))" if "s \<in> set xs" for s
  proof
    assume "confidence s = c"
    then show "?f s = - int (rank c)" by (simp only:)
  next
    assume "?f s = - int (rank c)"
    then have "rank (confidence s) = rank c" by linarith
    moreover have "ruleConfidence (confidence s)" using conf that by blast
    ultimately show "confidence s = c" using True by (intro rank_inj)
  qed
  have "filter (\<lambda>s. confidence s = c) (sort_key ?f xs) = filter (\<lambda>s. ?f s = - int (rank c)) (sort_key ?f xs)"
    by (rule filter_cong [OF refl]) (simp only: set_sort same)
  also have "\<dots> = filter (\<lambda>s. ?f s = - int (rank c)) xs"
    by (rule sort_key_stable)
  also have "\<dots> = filter (\<lambda>s. confidence s = c) xs"
    by (rule filter_cong [OF refl]) (simp only: same)
  finally show ?thesis
    by (simp only: arraySort_byConfidence [OF conf])
next
  case False
  have none: "confidence s \<noteq> c" if "s \<in> set xs" for s
    using conf that False by blast
  have "filter (\<lambda>s. confidence s = c) (arraySort byConfidence xs) = []"
    unfolding filter_empty_conv set_arraySort using none by blast
  moreover have "filter (\<lambda>s. confidence s = c) xs = []"
    unfolding filter_empty_conv using none by blast
  ultimately show ?thesis by (simp only:)
qed

subsection \<open>The detectors only push\<close>

lemma equationStep_append: "equationStep element acc = acc @ equationStep element []"
  by (simp add: equationStep_def Let_def)

lemma problemStep_append:
  "problemStep engine doc element acc =
     (case problemStep engine doc element [] of Inl err \<Rightarrow> Inl err | Inr new \<Rightarrow> Inr (acc @ new))"
  by (simp add: problemStep_def Let_def split: option.splits sum.splits)

lemma problemLoop_append:
  "problemLoop engine doc es acc =
     (case problemLoop engine doc es [] of Inl err \<Rightarrow> Inl err | Inr new \<Rightarrow> Inr (acc @ new))"
proof (induction es arbitrary: acc)
  case Nil
  then show ?case by simp
next
  case (Cons e es)
  show ?case
  proof (cases "problemStep engine doc e []")
    case (Inl err)
    then show ?thesis
      using problemStep_append [of engine doc e acc] by simp
  next
    case (Inr new)
    then have step: "problemStep engine doc e acc = Inr (acc @ new)"
      using problemStep_append [of engine doc e acc] by simp
    show ?thesis
      using Cons.IH [of "acc @ new"] Cons.IH [of new] Inr step
      by (simp split: sum.splits)
  qed
qed

subsection \<open>A call on the heap\<close>

lemma grow_simps [simp]:
  "regExps (grow objs h) = regExps h @ objs"
  "arrays (grow objs h) = arrays h"
  "grow m2 (grow m1 h) = grow (m1 @ m2) h"
  "grow [] h = h"
  by (simp_all add: grow_def)

lemma appended_simps [simp]:
  "regExps (appended a new h) = regExps h"
  "length (arrays (appended a new h)) = length (arrays h)"
  "grow objs (appended a new h) = appended a new (grow objs h)"
  by (simp_all add: grow_def appended_def)

lemma appended_Nil [simp]: "appended a [] h = h"
  by (simp add: appended_def)

lemma appended_appended [simp]:
  "a < length (arrays h) \<Longrightarrow> appended a n2 (appended a n1 h) = appended a (n1 @ n2) h"
  by (simp add: appended_def)

lemma ex_grow [simp]: "\<exists>objs. grow a h = grow objs h"
  by blast

lemma ex_appended_grow [simp]: "\<exists>objs. appended a new (grow m h) = appended a new (grow objs h)"
  by blast

lemma holds_grow [simp]: "holds h R r \<Longrightarrow> holds (grow objs h) R r"
  by (simp add: holds_def nth_append)

lemma holds_appended [simp]: "holds (appended a new h) R r = holds h R r"
  by (simp add: holds_def)

lemma holds_new [simp]: "holds (grow (plainObject r # objs) h) (length (regExps h)) r"
  by (simp add: holds_def)

lemma search_match: "map_option snd (search s r i) = match s r"
  by (induction s arbitrary: i) (auto split: list.splits)

lemma plainObject_simps [simp]:
  "pattern (plainObject r) = r"
  "\<not> global (plainObject r)"
  "\<not> sticky (plainObject r)"
  by (simp_all add: plainObject_def)

lemma exec_object:
  assumes "R < length (regExps h)" and "\<not> global (regExps h ! R)" and "\<not> sticky (regExps h ! R)"
  shows "regExpBuiltinExec R S h = (match S (pattern (regExps h ! R)), h)"
  using assms search_match [of S "pattern (regExps h ! R)" 0]
  by (cases "search S (pattern (regExps h ! R)) 0") (auto simp: regExpBuiltinExec_def)

lemma test_object:
  assumes "R < length (regExps h)" and "\<not> global (regExps h ! R)" and "\<not> sticky (regExps h ! R)"
  shows "regExpTest R S h = (test (pattern (regExps h ! R)) S, h)"
  using assms by (simp add: regExpTest_def exec_object test_def)

lemma match_object:
  assumes "R < length (regExps h)" and "\<not> global (regExps h ! R)" and "\<not> sticky (regExps h ! R)"
  shows "stringMatch S R h = (match S (pattern (regExps h ! R)), h)"
  using assms by (simp add: stringMatch_def exec_object)

lemma match_plain: "holds h R r \<Longrightarrow> stringMatch S R h = (match S r, h)"
  by (simp add: holds_def match_object)

lemma literal_eq: "literal r h = (length (regExps h), grow [plainObject r] h)"
  by (simp add: literal_def regExpCreate_def grow_def plainObject_def)

lemma matchLiteral_eq: "matchLiteral s r h = (match s r, grow [plainObject r] h)"
  by (simp add: matchLiteral_def literal_eq match_object)

lemma wholeOr_match: "wholeOr (match text r) text = matchedOr text r"
  by (simp add: wholeOr_def matchedOr_def)

lemma linearVariableIn_eq: "\<exists>objs. linearVariableIn t h = (linearVariable t, grow objs h)"
  by (auto simp: linearVariableIn_def linearVariable_def matchLiteral_eq orMatch_def
        split: option.splits)

lemma quadraticVariableIn_eq: "\<exists>objs. quadraticVariableIn t h = (quadraticVariable t, grow objs h)"
  by (auto simp: quadraticVariableIn_def quadraticVariable_def matchLiteral_eq orMatch_def
        split: option.splits)

lemma generalVariableIn_eq: "\<exists>objs. generalVariableIn t h = (generalVariable t, grow objs h)"
  by (auto simp: generalVariableIn_def generalVariable_def matchLiteral_eq split: option.splits)

lemma push_eq: "push a x h = appended a [x] h"
  by (simp add: push_def appended_def)

lemma pushExplorer_eq:
  assumes "holds h R r"
    and "\<And>t h. \<exists>objs. variableIn t h = (variable t, grow objs h)"
  shows "\<exists>objs. pushExplorer e d c variableIn text R a h =
           appended a [equationExplorer e d c (matchedOr text r) (variable (matchedOr text r))]
             (grow objs h)"
proof -
  obtain objs where "variableIn (matchedOr text r) h = (variable (matchedOr text r), grow objs h)"
    using assms(2) by blast
  then show ?thesis
    using assms(1) by (simp add: pushExplorer_def match_plain wholeOr_match push_eq)
qed

lemma equationStepIn_eq:
  assumes "a < length (arrays h)"
  shows "\<exists>objs. equationStepIn e a h = appended a (equationStep e []) (grow objs h)"
proof -
  let ?text = "textContent (node e)"
  note variables = linearVariableIn_eq quadraticVariableIn_eq generalVariableIn_eq
  show ?thesis
  proof (cases "length ?text < 3")
    case True
    then have "equationStepIn e a h = appended a (equationStep e []) (grow [] h)"
      by (simp add: equationStepIn_def equationStep_def)
    then show ?thesis by blast
  next
    case long: False
    show ?thesis
    proof (cases "test linearEquationPattern ?text")
      case True
      have "\<exists>objs. pushExplorer e (str ''Interactive Linear Equation Explorer'') (decimal 85 100)
           linearVariableIn ?text (length (regExps h)) a (grow [plainObject linearEquationPattern] h)
         = appended a [equationExplorer e (str ''Interactive Linear Equation Explorer'')
                         (decimal 85 100) (matchedOr ?text linearEquationPattern)
                         (linearVariable (matchedOr ?text linearEquationPattern))]
             (grow objs (grow [plainObject linearEquationPattern] h))"
        by (rule pushExplorer_eq [where variable = linearVariable])
           (simp_all add: holds_def nth_append linearVariableIn_eq)
      then obtain objs where
        "pushExplorer e (str ''Interactive Linear Equation Explorer'') (decimal 85 100)
           linearVariableIn ?text (length (regExps h)) a (grow [plainObject linearEquationPattern] h)
         = appended a [equationExplorer e (str ''Interactive Linear Equation Explorer'')
                         (decimal 85 100) (matchedOr ?text linearEquationPattern)
                         (linearVariable (matchedOr ?text linearEquationPattern))]
             (grow objs (grow [plainObject linearEquationPattern] h))"
        by blast
      then have "equationStepIn e a h = appended a (equationStep e [])
                   (grow (plainObject linearEquationPattern # objs) h)"
        using long True
        by (simp add: equationStepIn_def equationStep_def literal_eq test_object nth_append Let_def)
      then show ?thesis by blast
    next
      case notLinear: False
      show ?thesis
      proof (cases "test quadraticPattern ?text")
        case True
        have "\<exists>objs. pushExplorer e (str ''Interactive Quadratic Function Explorer'') (decimal 9 10)
             quadraticVariableIn ?text (Suc (length (regExps h))) a
             (grow [plainObject linearEquationPattern, plainObject quadraticPattern] h)
           = appended a [equationExplorer e (str ''Interactive Quadratic Function Explorer'')
                           (decimal 9 10) (matchedOr ?text quadraticPattern)
                           (quadraticVariable (matchedOr ?text quadraticPattern))]
               (grow objs (grow [plainObject linearEquationPattern, plainObject quadraticPattern] h))"
          by (rule pushExplorer_eq [where variable = quadraticVariable])
             (simp_all add: holds_def nth_append quadraticVariableIn_eq)
        then obtain objs where
          "pushExplorer e (str ''Interactive Quadratic Function Explorer'') (decimal 9 10)
             quadraticVariableIn ?text (Suc (length (regExps h))) a
             (grow [plainObject linearEquationPattern, plainObject quadraticPattern] h)
           = appended a [equationExplorer e (str ''Interactive Quadratic Function Explorer'')
                           (decimal 9 10) (matchedOr ?text quadraticPattern)
                           (quadraticVariable (matchedOr ?text quadraticPattern))]
               (grow objs (grow [plainObject linearEquationPattern, plainObject quadraticPattern] h))"
          by blast
        then have "equationStepIn e a h = appended a (equationStep e [])
                     (grow (plainObject linearEquationPattern # plainObject quadraticPattern # objs) h)"
          using long notLinear True
          by (simp add: equationStepIn_def equationStep_def literal_eq test_object nth_append Let_def)
        then show ?thesis by blast
      next
        case notQuadratic: False
        show ?thesis
        proof (cases "test mathPattern ?text")
          case True
          have "\<exists>objs. pushExplorer e (str ''Interactive Function Explorer'') (decimal 7 10)
               generalVariableIn ?text (Suc (Suc (length (regExps h)))) a
               (grow [plainObject linearEquationPattern, plainObject quadraticPattern,
                      plainObject mathPattern] h)
             = appended a [equationExplorer e (str ''Interactive Function Explorer'')
                             (decimal 7 10) (matchedOr ?text mathPattern)
                             (generalVariable (matchedOr ?text mathPattern))]
                 (grow objs (grow [plainObject linearEquationPattern, plainObject quadraticPattern,
                                   plainObject mathPattern] h))"
            by (rule pushExplorer_eq [where variable = generalVariable])
               (simp_all add: holds_def nth_append generalVariableIn_eq)
          then obtain objs where
            "pushExplorer e (str ''Interactive Function Explorer'') (decimal 7 10)
               generalVariableIn ?text (Suc (Suc (length (regExps h)))) a
               (grow [plainObject linearEquationPattern, plainObject quadraticPattern,
                      plainObject mathPattern] h)
             = appended a [equationExplorer e (str ''Interactive Function Explorer'')
                             (decimal 7 10) (matchedOr ?text mathPattern)
                             (generalVariable (matchedOr ?text mathPattern))]
                 (grow objs (grow [plainObject linearEquationPattern, plainObject quadraticPattern,
                                   plainObject mathPattern] h))"
            by blast
          then have "equationStepIn e a h = appended a (equationStep e [])
                       (grow (plainObject linearEquationPattern # plainObject quadraticPattern
                              # plainObject mathPattern # objs) h)"
            using long notLinear notQuadratic True
            by (simp add: equationStepIn_def equationStep_def literal_eq test_object nth_append Let_def)
          then show ?thesis by blast
        next
          case False
          then have "equationStepIn e a h = appended a (equationStep e [])
                       (grow [plainObject linearEquationPattern, plainObject quadraticPattern,
                              plainObject mathPattern] h)"
            using long notLinear notQuadratic
            by (simp add: equationStepIn_def equationStep_def literal_eq test_object nth_append Let_def)
          then show ?thesis by blast
        qed
      qed
    qed
  qed
qed

lemma equationLoop_append:
  "foldl (\<lambda>acc element. equationStep element acc) acc es
   = acc @ foldl (\<lambda>acc element. equationStep element acc) [] es"
proof (induction es arbitrary: acc)
  case Nil
  then show ?case by simp
next
  case (Cons e es)
  have "foldl (\<lambda>acc element. equationStep element acc) (equationStep e acc) es
        = (acc @ equationStep e []) @ foldl (\<lambda>acc element. equationStep element acc) [] es"
    using Cons.IH [of "equationStep e acc"] equationStep_append [of e acc] by simp
  moreover have "foldl (\<lambda>acc element. equationStep element acc) (equationStep e []) es
        = equationStep e [] @ foldl (\<lambda>acc element. equationStep element acc) [] es"
    by (rule Cons.IH)
  ultimately show ?case by simp
qed

lemma equationLoopIn_eq:
  assumes "a < length (arrays h)"
  shows "\<exists>objs. foldl (\<lambda>h element. equationStepIn element a h) h es
           = appended a (foldl (\<lambda>acc element. equationStep element acc) [] es) (grow objs h)"
  using assms
proof (induction es arbitrary: h)
  case Nil
  have "h = appended a [] (grow [] h)" by simp
  then show ?case by (simp del: appended_Nil grow_simps) blast
next
  case (Cons e es)
  obtain objs1 where step: "equationStepIn e a h = appended a (equationStep e []) (grow objs1 h)"
    using equationStepIn_eq [OF Cons.prems] by blast
  let ?h1 = "appended a (equationStep e []) (grow objs1 h)"
  have "a < length (arrays ?h1)"
    using Cons.prems by simp
  then obtain objs2 where rest:
    "foldl (\<lambda>h element. equationStepIn element a h) ?h1 es
     = appended a (foldl (\<lambda>acc element. equationStep element acc) [] es) (grow objs2 ?h1)"
    using Cons.IH by blast
  have "foldl (\<lambda>h element. equationStepIn element a h) h (e # es)
        = appended a (equationStep e [] @ foldl (\<lambda>acc element. equationStep element acc) [] es)
            (grow (objs1 @ objs2) h)"
    using step rest Cons.prems by simp
  also have "equationStep e [] @ foldl (\<lambda>acc element. equationStep element acc) [] es
             = foldl (\<lambda>acc element. equationStep element acc) [] (e # es)"
    using equationLoop_append [of "equationStep e []" es] by simp
  finally show ?case by blast
qed

lemma detectEquationPatternsIn_eq:
  assumes "a < length (arrays h)"
  shows "\<exists>objs. detectEquationPatternsIn doc a h
           = appended a (detectEquationPatterns doc []) (grow objs h)"
  unfolding detectEquationPatternsIn_def detectEquationPatterns_def
  using assms by (rule equationLoopIn_eq)

lemma literals_eq:
  "\<exists>Rs. literals rs h = (Rs, grow (map plainObject rs) h)
        \<and> list_all2 (holds (grow (map plainObject rs) h)) Rs rs"
proof (induction rs arbitrary: h)
  case Nil
  then show ?case by simp
next
  case (Cons r rs)
  let ?h1 = "grow [plainObject r] h"
  obtain Rs where
    rest: "literals rs ?h1 = (Rs, grow (map plainObject rs) ?h1)" and
    all: "list_all2 (holds (grow (map plainObject rs) ?h1)) Rs rs"
    using Cons.IH [of ?h1] by blast
  have "literals (r # rs) h = (length (regExps h) # Rs, grow (map plainObject (r # rs)) h)"
    using rest by (simp add: literal_eq)
  moreover have "list_all2 (holds (grow (map plainObject (r # rs)) h)) (length (regExps h) # Rs) (r # rs)"
    using all by simp
  ultimately show ?case by blast
qed

lemma firstMatchIn_eq:
  assumes "list_all2 (holds h) Rs rs"
  shows "firstMatchIn text Rs h = (firstMatch text rs, h)"
  using assms
  by (induction Rs rs rule: list_all2_induct) (simp_all add: match_plain split: option.splits)

lemma stepOfElementIn_eq:
  "stepOfElementIn i e h = (stepOfElement i e, grow [plainObject stepExpression] h)"
  by (simp add: stepOfElementIn_def stepOfElement_def matchLiteral_eq Let_def split: option.splits)

lemma mapStepsIn_eq:
  "\<exists>objs. mapStepsIn i es h
     = (map (\<lambda>(index, stepElement). stepOfElement index stepElement) (zip [i ..< i + length es] es),
        grow objs h)"
proof (induction es arbitrary: i h)
  case Nil
  have "h = grow [] h" by simp
  then show ?case by (simp del: grow_simps) blast
next
  case (Cons e es)
  let ?h1 = "grow [plainObject stepExpression] h"
  obtain objs where rest:
    "mapStepsIn (Suc i) es ?h1
     = (map (\<lambda>(index, stepElement). stepOfElement index stepElement)
          (zip [Suc i ..< Suc i + length es] es), grow objs ?h1)"
    using Cons.IH [of "Suc i" ?h1] by blast
  have "[i ..< i + length (e # es)] = i # [Suc i ..< i + length (e # es)]"
    by (rule upt_conv_Cons) simp
  then have upt: "[i ..< i + length (e # es)] = i # [Suc i ..< Suc i + length es]"
    by simp
  have "mapStepsIn i (e # es) h
        = (map (\<lambda>(index, stepElement). stepOfElement index stepElement)
             (zip [i ..< i + length (e # es)] (e # es)),
           grow (plainObject stepExpression # objs) h)"
    unfolding upt using rest by (simp add: stepOfElementIn_eq)
  then show ?case by blast
qed

lemma containerStepsIn_eq:
  "\<exists>objs. containerStepsIn q container h = (containerSteps q container, grow objs h)"
  using mapStepsIn_eq [of 0 _ h]
  by (simp add: containerStepsIn_def containerSteps_def Let_def)

lemma synthesizedStepsIn_eq:
  "\<exists>objs. synthesizedStepsIn m h = (synthesizedSteps m, grow objs h)"
proof (cases "includesStr (whole m) (str ''='') \<and> match (whole m) linearShape \<noteq> None")
  case True
  then have "synthesizedStepsIn m h
             = (synthesizedSteps m,
                grow [plainObject linearShape, plainObject variablePattern,
                      plainObject coefficientPattern, plainObject constantPattern,
                      plainObject rightSidePattern] h)"
    by (auto simp: synthesizedStepsIn_def synthesizedSteps_def matchLiteral_eq Let_def)
  then show ?thesis by blast
next
  case False
  then have "synthesizedStepsIn m h = (synthesizedSteps m, grow [] h)
             \<or> synthesizedStepsIn m h = (synthesizedSteps m, grow [plainObject linearShape] h)"
    by (auto simp: synthesizedStepsIn_def synthesizedSteps_def matchLiteral_eq Let_def)
  then show ?thesis by blast
qed

lemma problemStepIn_eq:
  assumes "list_all2 (holds h) Rs problemPatterns" and "a < length (arrays h)"
  shows "\<exists>objs. problemStepIn engine doc Rs e a h
           = (case problemStep engine doc e [] of
                Inl err \<Rightarrow> (Some err, grow objs h)
              | Inr new \<Rightarrow> (None, appended a new (grow objs h)))"
proof -
  let ?text = "textContent (node e)"
  have first: "firstMatchIn ?text Rs h = (firstMatch ?text problemPatterns, h)"
    using assms(1) by (rule firstMatchIn_eq)
  have same: "h = grow [] h" by simp
  show ?thesis
  proof (cases "length ?text < 10 \<or> firstMatch ?text problemPatterns = None")
    case True
    then have "problemStepIn engine doc Rs e a h = (None, appended a [] (grow [] h))"
      and "problemStep engine doc e [] = Inr []"
      using first by (auto simp: problemStepIn_def problemStep_def Let_def)
    then show ?thesis
      by (auto simp del: grow_simps appended_Nil)
  next
    case False
    then obtain m where m: "firstMatch ?text problemPatterns = Some m" and long: "\<not> length ?text < 10"
      by auto
    show ?thesis
    proof (cases "solutionContainer engine doc e")
      case (Inl err)
      then have "problemStepIn engine doc Rs e a h = (Some err, grow [] h)"
        and "problemStep engine doc e [] = Inl err"
        using first m long by (simp_all add: problemStepIn_def problemStep_def problemSteps_def Let_def)
      then show ?thesis
        by (auto simp del: grow_simps)
    next
      case (Inr found)
      have "\<exists>objs. (case found of Some container \<Rightarrow> containerStepsIn (quirks doc) container h
                     | None \<Rightarrow> synthesizedStepsIn m h)
               = ((case found of Some container \<Rightarrow> containerSteps (quirks doc) container
                   | None \<Rightarrow> synthesizedSteps m), grow objs h)"
      proof (cases found)
        case None
        then show ?thesis
          using synthesizedStepsIn_eq [of m h] by simp
      next
        case (Some container)
        then show ?thesis
          using containerStepsIn_eq [of "quirks doc" container h] by simp
      qed
      then obtain objs where steps:
        "(case found of Some container \<Rightarrow> containerStepsIn (quirks doc) container h
          | None \<Rightarrow> synthesizedStepsIn m h)
         = ((case found of Some container \<Rightarrow> containerSteps (quirks doc) container
             | None \<Rightarrow> synthesizedSteps m), grow objs h)"
        by blast
      let ?steps = "case found of Some container \<Rightarrow> containerSteps (quirks doc) container
                    | None \<Rightarrow> synthesizedSteps m"
      have pure: "problemSteps engine doc e m = Inr ?steps"
        using Inr by (simp add: problemSteps_def split: option.splits)
      show ?thesis
      proof (cases "?steps = []")
        case True
        then have "problemStepIn engine doc Rs e a h = (None, appended a [] (grow objs h))"
          and "problemStep engine doc e [] = Inr []"
          using first m long Inr steps pure
          by (simp_all add: problemStepIn_def problemStep_def Let_def)
        then show ?thesis
          by (auto simp del: appended_Nil)
      next
        case False
        then have "problemStepIn engine doc Rs e a h
                   = (None, appended a [problemSolver e ?text ?steps] (grow objs h))"
          and "problemStep engine doc e [] = Inr [problemSolver e ?text ?steps]"
          using first m long Inr steps pure
          by (simp_all add: problemStepIn_def problemStep_def push_eq Let_def)
        then show ?thesis
          by auto
      qed
    qed
  qed
qed

lemma holds_later:
  assumes "list_all2 (holds h) Rs rs"
  shows "list_all2 (holds (appended a new (grow objs h))) Rs rs"
  using assms by (rule list_all2_mono) simp

lemma problemLoopIn_eq:
  assumes "list_all2 (holds h) Rs problemPatterns" and "a < length (arrays h)"
  shows "case problemLoop engine doc es [] of
           Inl err \<Rightarrow> fst (problemLoopIn engine doc Rs es a h) = Some err
         | Inr new \<Rightarrow> (\<exists>objs. problemLoopIn engine doc Rs es a h
                                = (None, appended a new (grow objs h)))"
  using assms
proof (induction es arbitrary: h)
  case Nil
  have "h = appended a [] (grow [] h)" by simp
  then show ?case by (auto simp del: appended_Nil grow_simps)
next
  case (Cons e es)
  obtain objs1 where step:
    "problemStepIn engine doc Rs e a h
     = (case problemStep engine doc e [] of
          Inl err \<Rightarrow> (Some err, grow objs1 h)
        | Inr new \<Rightarrow> (None, appended a new (grow objs1 h)))"
    using problemStepIn_eq [OF Cons.prems] by blast
  show ?case
  proof (cases "problemStep engine doc e []")
    case (Inl err)
    then show ?thesis
      using step by simp
  next
    case (Inr new)
    let ?h1 = "appended a new (grow objs1 h)"
    have pure: "problemLoop engine doc (e # es) []
                = (case problemLoop engine doc es [] of
                     Inl err \<Rightarrow> Inl err
                   | Inr new2 \<Rightarrow> Inr (new @ new2))"
      using Inr problemLoop_append [of engine doc es new] by simp
    have run: "problemLoopIn engine doc Rs (e # es) a h = problemLoopIn engine doc Rs es a ?h1"
      using step Inr by simp
    have "list_all2 (holds ?h1) Rs problemPatterns"
      using Cons.prems(1) by (rule holds_later)
    moreover have "a < length (arrays ?h1)"
      using Cons.prems(2) by simp
    ultimately have rest:
      "case problemLoop engine doc es [] of
         Inl err \<Rightarrow> fst (problemLoopIn engine doc Rs es a ?h1) = Some err
       | Inr new2 \<Rightarrow> (\<exists>objs. problemLoopIn engine doc Rs es a ?h1
                                = (None, appended a new2 (grow objs ?h1)))"
      by (rule Cons.IH)
    show ?thesis
    proof (cases "problemLoop engine doc es []")
      case (Inl err)
      then show ?thesis
        using rest pure run by simp
    next
      case inner: (Inr new2)
      then obtain objs2 where
        "problemLoopIn engine doc Rs es a ?h1 = (None, appended a new2 (grow objs2 ?h1))"
        using rest by auto
      then have "problemLoopIn engine doc Rs (e # es) a h
                 = (None, appended a (new @ new2) (grow (objs1 @ objs2) h))"
        using run Cons.prems(2) by simp
      then show ?thesis
        using pure inner by auto
    qed
  qed
qed

lemma detectProblemSolverPatternsIn_eq:
  assumes "a < length (arrays h)"
  shows "case detectProblemSolverPatterns engine doc [] of
           Inl err \<Rightarrow> fst (detectProblemSolverPatternsIn engine doc a h) = Some err
         | Inr new \<Rightarrow> (\<exists>objs. detectProblemSolverPatternsIn engine doc a h
                                = (None, appended a new (grow objs h)))"
proof -
  let ?h1 = "grow (map plainObject problemPatterns) h"
  obtain Rs where
    made: "literals problemPatterns h = (Rs, ?h1)" and
    all: "list_all2 (holds ?h1) Rs problemPatterns"
    using literals_eq [of problemPatterns h] by blast
  have run: "detectProblemSolverPatternsIn engine doc a h
             = problemLoopIn engine doc Rs (potentialProblems doc) a ?h1"
    using made by (simp add: detectProblemSolverPatternsIn_def)
  have "a < length (arrays ?h1)"
    using assms by simp
  with all have loop:
    "case problemLoop engine doc (potentialProblems doc) [] of
       Inl err \<Rightarrow> fst (problemLoopIn engine doc Rs (potentialProblems doc) a ?h1) = Some err
     | Inr new \<Rightarrow> (\<exists>objs. problemLoopIn engine doc Rs (potentialProblems doc) a ?h1
                            = (None, appended a new (grow objs ?h1)))"
    by (rule problemLoopIn_eq)
  show ?thesis
  proof (cases "problemLoop engine doc (potentialProblems doc) []")
    case (Inl err)
    then show ?thesis
      using loop run by (simp add: detectProblemSolverPatterns_def)
  next
    case (Inr new)
    then obtain objs where
      "problemLoopIn engine doc Rs (potentialProblems doc) a ?h1
       = (None, appended a new (grow objs ?h1))"
      using loop by auto
    then have "detectProblemSolverPatternsIn engine doc a h
               = (None, appended a new (grow (map plainObject problemPatterns @ objs) h))"
      using run by simp
    then show ?thesis
      using Inr by (auto simp: detectProblemSolverPatterns_def)
  qed
qed

lemma detectProblemSolverPatterns_append:
  "detectProblemSolverPatterns engine doc acc
   = (case detectProblemSolverPatterns engine doc [] of
        Inl err \<Rightarrow> Inl err
      | Inr new \<Rightarrow> Inr (acc @ new))"
  unfolding detectProblemSolverPatterns_def by (rule problemLoop_append)

lemma call_eq:
  "case generateTransformationSuggestions engine doc of
     Inl err \<Rightarrow> fst (call engine doc h) = Inl err
   | Inr result \<Rightarrow> fst (call engine doc h) = Inr (length (arrays h))
                   \<and> arrays (snd (call engine doc h)) = arrays h @ [result]"
proof -
  let ?a = "length (arrays h)"
  let ?h1 = "h\<lparr>arrays := arrays h @ [[]]\<rparr>"
  let ?found = "detectEquationPatterns doc []"
  have a: "?a < length (arrays ?h1)"
    by simp
  obtain objs1 where equations:
    "detectEquationPatternsIn doc ?a ?h1 = appended ?a ?found (grow objs1 ?h1)"
    using detectEquationPatternsIn_eq [OF a] by blast
  let ?h2 = "appended ?a ?found (grow objs1 ?h1)"
  have a2: "?a < length (arrays ?h2)"
    by simp
  note problems = detectProblemSolverPatternsIn_eq [OF a2, of engine doc]
  have run: "call engine doc h
             = (case detectProblemSolverPatternsIn engine doc ?a ?h2 of
                  (Some err, h3) \<Rightarrow> (Inl err, h3)
                | (None, h3) \<Rightarrow> (Inr ?a, sortInPlace byConfidence ?a h3))"
    using equations by (simp add: call_def arrayCreate_def)
  have pure: "generateTransformationSuggestions engine doc
              = (case detectProblemSolverPatterns engine doc [] of
                   Inl err \<Rightarrow> Inl err
                 | Inr new \<Rightarrow> Inr (arraySort byConfidence (?found @ new)))"
    using detectProblemSolverPatterns_append [of engine doc ?found]
    by (simp add: generateTransformationSuggestions_def split: sum.splits)
  show ?thesis
  proof (cases "detectProblemSolverPatterns engine doc []")
    case (Inl err)
    then have "fst (detectProblemSolverPatternsIn engine doc ?a ?h2) = Some err"
      using problems by simp
    then have "fst (call engine doc h) = Inl err"
      using run by (simp add: split_beta)
    then show ?thesis
      using pure Inl by simp
  next
    case (Inr new)
    then obtain objs2 where
      "detectProblemSolverPatternsIn engine doc ?a ?h2 = (None, appended ?a new (grow objs2 ?h2))"
      using problems by auto
    then have "call engine doc h
               = (Inr ?a, sortInPlace byConfidence ?a (appended ?a new (grow objs2 ?h2)))"
      using run by simp
    then have "fst (call engine doc h) = Inr ?a"
      and "arrays (snd (call engine doc h)) = arrays h @ [arraySort byConfidence (?found @ new)]"
      by (simp_all add: sortInPlace_def appended_def)
    then show ?thesis
      using pure Inr by simp
  qed
qed

section \<open>The claims\<close>

text \<open>
  Claim C1.  For \<^verbatim>\<open><h3>Problem</h3><p>Solve for x: 2x + 3 = 7</p>\<close> the specification
  expects one problem-solver suggestion with two synthesised steps.  The analysis of that
  document returns one suggestion, the linear equation explorer of the paragraph, and no
  problem-solver suggestion: the cue pattern that matches ends in a lazy \<open>(.*?)\<close>, so the
  matched text is \<open>Solve for x: \<close>, which has no \<open>=\<close>, and no step is made up.
\<close>

theorem solve_for_yields_no_problem_solver:
  "generateTransformationSuggestions engine solveForDocument = Inr [solveForSuggestion]
   \<and> type solveForSuggestion = str ''equationExplorer''
   \<and> firstMatch (textContent (node (allElements solveForDocument ! 4))) problemPatterns
       = Some \<lparr>whole = str ''Solve for x: '', groups = [(2, []), (1, str ''x'')]\<rparr>
   \<and> \<not> includesStr (str ''Solve for x: '') (str ''='')"
  by (simp add: solveFor_result solveFor_candidates solveFor_match)
     (simp add: solveForSuggestion_def equationExplorer_def str_def)

text \<open>
  Claim C2.  The suggestions come back sorted by confidence, highest first, and
  suggestions of equal confidence keep the order in which the detectors pushed them:
  for every confidence, the returned list and the detected list agree on the
  suggestions of that confidence, in order.
\<close>

theorem suggestions_sorted_stable:
  assumes "detectProblemSolverPatterns engine doc (detectEquationPatterns doc []) = Inr detected"
  shows "\<exists>result. generateTransformationSuggestions engine doc = Inr result
           \<and> sorted_wrt (\<lambda>a b. lessEq (confidence b) (confidence a)) result
           \<and> (\<forall>c. filter (\<lambda>s. confidence s = c) result = filter (\<lambda>s. confidence s = c) detected)"
proof -
  have conf: "\<forall>s \<in> set detected. ruleConfidence (confidence s)"
    using assms by (rule detected_confidence)
  have "generateTransformationSuggestions engine doc = Inr (arraySort byConfidence detected)"
    by (simp add: generateTransformationSuggestions_def assms)
  moreover have "sorted_wrt (\<lambda>a b. lessEq (confidence b) (confidence a))
                   (arraySort byConfidence detected)"
    using conf by (rule sorted_arraySort)
  moreover have "\<forall>c. filter (\<lambda>s. confidence s = c) (arraySort byConfidence detected)
                     = filter (\<lambda>s. confidence s = c) detected"
    using conf by (intro allI stable_arraySort)
  ultimately show ?thesis
    by (intro exI conjI)
qed

theorem suggestions_sorted_stable_witness:
  "detectProblemSolverPatterns noMatch workedDocument (detectEquationPatterns workedDocument [])
     = Inr [workedLinear, workedFirst, workedSecond, workedProblem, workedProblem, workedProblem]
   \<and> (\<exists>result. generateTransformationSuggestions noMatch workedDocument = Inr result
         \<and> sorted_wrt (\<lambda>a b. lessEq (confidence b) (confidence a)) result
         \<and> (\<forall>c. filter (\<lambda>s. confidence s = c) result
                = filter (\<lambda>s. confidence s = c)
                    [workedLinear, workedFirst, workedSecond, workedProblem, workedProblem,
                     workedProblem]))"
proof -
  have detected:
    "detectProblemSolverPatterns noMatch workedDocument (detectEquationPatterns workedDocument [])
     = Inr [workedLinear, workedFirst, workedSecond, workedProblem, workedProblem, workedProblem]"
    by (rule worked_detected)
  show ?thesis
    using detected suggestions_sorted_stable [OF detected] by blast
qed

text \<open>
  Claim C3.  For \<^verbatim>\<open><p>y = 2x + 1</p>\<close> the analysis returns exactly one suggestion: an
  equation explorer of confidence 0.85, the linear rule; its variables are \<open>['y']\<close>, the
  letter before the \<open>=\<close>; its equation is the trimmed text the linear pattern matched,
  \<open>y = 2x + 1\<close>.
\<close>

theorem linear_scenario:
  "\<exists>s. generateTransformationSuggestions engine linearDocument = Inr [s]
       \<and> type s = str ''equationExplorer''
       \<and> confidence s = decimal 85 100
       \<and> description s = str ''Interactive Linear Equation Explorer''
       \<and> map_of (blockParameters s) (str ''variables'') = Some (VArray [VString (str ''y'')])
       \<and> map_of (blockParameters s) (str ''equation'')
           = Some (VString (trim (matchedOr (textContent (node (allElements linearDocument ! 3)))
                                    linearEquationPattern)))
       \<and> map_of (blockParameters s) (str ''equation'') = Some (VString (str ''y = 2x + 1''))
       \<and> truthyGroup (match (str ''y = 2x + 1'') varBeforeEquals) 1 = Some (str ''y'')"
proof (intro exI conjI)
  show "generateTransformationSuggestions engine linearDocument = Inr [linearSuggestion]"
    by (rule linear_result)
  show "type linearSuggestion = str ''equationExplorer''"
    "confidence linearSuggestion = decimal 85 100"
    "description linearSuggestion = str ''Interactive Linear Equation Explorer''"
    by (simp_all add: linearSuggestion_def equationExplorer_def)
  show "map_of (blockParameters linearSuggestion) (str ''variables'')
        = Some (VArray [VString (str ''y'')])"
    by (simp add: linearSuggestion_def equationExplorer_def str_def)
  show "map_of (blockParameters linearSuggestion) (str ''equation'')
        = Some (VString (trim (matchedOr (textContent (node (allElements linearDocument ! 3)))
                                 linearEquationPattern)))"
    by (simp add: linear_candidates)
       (simp add: linearSuggestion_def equationExplorer_def matchedOr_def classEval patternEval
          stringEval)
  show "map_of (blockParameters linearSuggestion) (str ''equation'')
        = Some (VString (str ''y = 2x + 1''))"
    by (simp add: linearSuggestion_def equationExplorer_def str_def stringEval)
  show "truthyGroup (match (str ''y = 2x + 1'') varBeforeEquals) 1 = Some (str ''y'')"
    by (simp add: truthyGroup_def grp_def classEval patternEval)
qed

text \<open>
  Claim C4.  For \<^verbatim>\<open><p>y = x^2 + 2x + 1</p>\<close> the analysis returns exactly one suggestion,
  an equation explorer of confidence 0.9: the linear pattern, tried first, does not match
  the text, and the quadratic pattern does.
\<close>

theorem quadratic_scenario:
  "\<exists>s. generateTransformationSuggestions engine quadraticDocument = Inr [s]
       \<and> type s = str ''equationExplorer''
       \<and> confidence s = decimal 9 10
       \<and> description s = str ''Interactive Quadratic Function Explorer''
       \<and> \<not> test linearEquationPattern (textContent (node (allElements quadraticDocument ! 3)))
       \<and> test quadraticPattern (textContent (node (allElements quadraticDocument ! 3)))"
proof (intro exI conjI)
  show "generateTransformationSuggestions engine quadraticDocument = Inr [quadraticSuggestion]"
    by (rule quadratic_result)
  show "type quadraticSuggestion = str ''equationExplorer''"
    "confidence quadraticSuggestion = decimal 9 10"
    "description quadraticSuggestion = str ''Interactive Quadratic Function Explorer''"
    by (simp_all add: quadraticSuggestion_def equationExplorer_def)
  show "\<not> test linearEquationPattern (textContent (node (allElements quadraticDocument ! 3)))"
    by (simp add: quadratic_candidates quadratic_not_linear)
  show "test quadraticPattern (textContent (node (allElements quadraticDocument ! 3)))"
    by (simp add: quadratic_candidates) (simp add: test_def classEval patternEval)
qed

text \<open>
  Claim C5.  Every problem-solver suggestion that the analysis returns has at least one
  step; and a candidate that is recognised as a problem but for which neither the
  container nor the synthesis gives a step leaves the suggestions as they were.
\<close>

theorem problem_solver_steps_nonempty:
  "(generateTransformationSuggestions engine doc = Inr result \<longrightarrow>
      (\<forall>s \<in> set result. type s = str ''problem-solver'' \<longrightarrow>
         (\<exists>steps. map_of (blockParameters s) (str ''steps'') = Some (VArray steps)
                  \<and> 1 \<le> length steps)))
   \<and> (firstMatch (textContent (node element)) problemPatterns = Some problemMatch \<longrightarrow>
      problemSteps engine' doc' element problemMatch = Inr [] \<longrightarrow>
      problemStep engine' doc' element suggestions = Inr suggestions)"
proof (intro conjI impI)
  assume "generateTransformationSuggestions engine doc = Inr result"
  then show "\<forall>s \<in> set result. type s = str ''problem-solver'' \<longrightarrow>
         (\<exists>steps. map_of (blockParameters s) (str ''steps'') = Some (VArray steps)
                  \<and> 1 \<le> length steps)"
  proof (rule generated_invariant)
    fix e d c t v
    show "type (equationExplorer e d c t v) = str ''problem-solver'' \<longrightarrow>
         (\<exists>steps. map_of (blockParameters (equationExplorer e d c t v)) (str ''steps'')
                    = Some (VArray steps) \<and> 1 \<le> length steps)"
      by (simp add: equationExplorer_def str_def)
  next
    fix e t and steps :: "jsvalue list"
    assume "steps \<noteq> []"
    then have "1 \<le> length steps"
      by (cases steps) simp_all
    moreover have "map_of (blockParameters (problemSolver e t steps)) (str ''steps'')
                   = Some (VArray steps)"
      by (simp add: problemSolver_def str_def)
    ultimately show "type (problemSolver e t steps) = str ''problem-solver'' \<longrightarrow>
         (\<exists>steps'. map_of (blockParameters (problemSolver e t steps)) (str ''steps'')
                    = Some (VArray steps') \<and> 1 \<le> length steps')"
      by blast
  qed
next
  assume "firstMatch (textContent (node element)) problemPatterns = Some problemMatch"
    and "problemSteps engine' doc' element problemMatch = Inr []"
  then show "problemStep engine' doc' element suggestions = Inr suggestions"
    by (simp add: problemStep_def Let_def)
qed

theorem problem_solver_steps_nonempty_witness:
  "generateTransformationSuggestions noMatch zeroCoefficientDocument = Inr [zeroLinear, zeroProblem]
   \<and> type zeroProblem = str ''problem-solver''
   \<and> (\<exists>steps. map_of (blockParameters zeroProblem) (str ''steps'') = Some (VArray steps)
              \<and> 1 \<le> length steps)
   \<and> firstMatch (textContent (node (allElements solveForDocument ! 4))) problemPatterns
       = Some \<lparr>whole = str ''Solve for x: '', groups = [(2, []), (1, str ''x'')]\<rparr>
   \<and> problemSteps noMatch solveForDocument (allElements solveForDocument ! 4)
        \<lparr>whole = str ''Solve for x: '', groups = [(2, []), (1, str ''x'')]\<rparr> = Inr []
   \<and> problemStep noMatch solveForDocument (allElements solveForDocument ! 4) [] = Inr []"
proof -
  let ?m = "\<lparr>whole = str ''Solve for x: '', groups = [(2, []), (1, str ''x'')]\<rparr>"
  let ?p = "allElements solveForDocument ! 4"
  have result: "generateTransformationSuggestions noMatch zeroCoefficientDocument
                = Inr [zeroLinear, zeroProblem]"
    by (rule zero_result)
  have type: "type zeroProblem = str ''problem-solver''"
    by (simp add: zeroProblem_def problemSolver_def)
  have matched: "firstMatch (textContent (node ?p)) problemPatterns = Some ?m"
    by (simp add: solveFor_candidates solveFor_match)
  have none: "problemSteps noMatch solveForDocument ?p ?m = Inr []"
    by (simp add: problemSteps_def solveFor_container solveFor_steps)
  note claim = problem_solver_steps_nonempty
    [of noMatch zeroCoefficientDocument "[zeroLinear, zeroProblem]" ?p ?m noMatch solveForDocument "[]"]
  have steps: "\<exists>steps. map_of (blockParameters zeroProblem) (str ''steps'') = Some (VArray steps)
                      \<and> 1 \<le> length steps"
    using claim result type by simp
  have unchanged: "problemStep noMatch solveForDocument ?p [] = Inr []"
    using claim matched none by blast
  show ?thesis
    using result type steps matched none unchanged by blast
qed

text \<open>
  Claim C6.  Every suggestion that the analysis returns is an equation explorer with the
  parameters \<open>equation\<close>, \<open>variables\<close>, \<open>range\<close>, \<open>initialValues\<close>, \<open>showGraph\<close> and
  \<open>showFormula\<close>, or a problem solver with the parameters \<open>problem\<close>, \<open>steps\<close>, \<open>showHints\<close>,
  \<open>progressiveReveal\<close>, \<open>requireUserInput\<close>, \<open>feedbackLevel\<close> and \<open>solutionVisible\<close>.
\<close>

theorem block_parameters_complete:
  assumes "generateTransformationSuggestions engine doc = Inr result" and "s \<in> set result"
  shows "(type s = str ''equationExplorer''
          \<and> list_all (\<lambda>k. map_of (blockParameters s) (str k) \<noteq> None)
               [''equation'', ''variables'', ''range'', ''initialValues'', ''showGraph'',
                ''showFormula''])
       \<or> (type s = str ''problem-solver''
          \<and> list_all (\<lambda>k. map_of (blockParameters s) (str k) \<noteq> None)
               [''problem'', ''steps'', ''showHints'', ''progressiveReveal'', ''requireUserInput'',
                ''feedbackLevel'', ''solutionVisible''])"
proof -
  let ?P = "\<lambda>s. (type s = str ''equationExplorer''
          \<and> list_all (\<lambda>k. map_of (blockParameters s) (str k) \<noteq> None)
               [''equation'', ''variables'', ''range'', ''initialValues'', ''showGraph'',
                ''showFormula''])
       \<or> (type s = str ''problem-solver''
          \<and> list_all (\<lambda>k. map_of (blockParameters s) (str k) \<noteq> None)
               [''problem'', ''steps'', ''showHints'', ''progressiveReveal'', ''requireUserInput'',
                ''feedbackLevel'', ''solutionVisible''])"
  have "\<forall>s \<in> set result. ?P s"
    using assms(1)
  proof (rule generated_invariant)
    fix e d c t v
    show "?P (equationExplorer e d c t v)"
      by (simp add: equationExplorer_def str_def)
  next
    fix e t and steps :: "jsvalue list"
    show "?P (problemSolver e t steps)"
      by (simp add: problemSolver_def str_def)
  qed
  then show ?thesis
    using assms(2) by blast
qed

theorem block_parameters_complete_witness:
  "generateTransformationSuggestions noMatch zeroCoefficientDocument = Inr [zeroLinear, zeroProblem]
   \<and> zeroProblem \<in> set [zeroLinear, zeroProblem]
   \<and> type zeroProblem = str ''problem-solver''
   \<and> list_all (\<lambda>k. map_of (blockParameters zeroProblem) (str k) \<noteq> None)
        [''problem'', ''steps'', ''showHints'', ''progressiveReveal'', ''requireUserInput'',
         ''feedbackLevel'', ''solutionVisible'']"
proof -
  have result: "generateTransformationSuggestions noMatch zeroCoefficientDocument
                = Inr [zeroLinear, zeroProblem]"
    by (rule zero_result)
  have member: "zeroProblem \<in> set [zeroLinear, zeroProblem]"
    by simp
  have type: "type zeroProblem = str ''problem-solver''"
    by (simp add: zeroProblem_def problemSolver_def)
  have "type zeroProblem \<noteq> str ''equationExplorer''"
    by (simp add: zeroProblem_def problemSolver_def str_def)
  then have "list_all (\<lambda>k. map_of (blockParameters zeroProblem) (str k) \<noteq> None)
        [''problem'', ''steps'', ''showHints'', ''progressiveReveal'', ''requireUserInput'',
         ''feedbackLevel'', ''solutionVisible'']"
    using block_parameters_complete [OF result member] by blast
  then show ?thesis
    using result member type by blast
qed

text \<open>
  Claim C7.  The synthesised steps divide by the parsed coefficient without a guard.  For
  \<^verbatim>\<open><h3>Example</h3><p>0x + 3 = 7</p>\<close> the coefficient parses to 0, the quotient
  \<open>(7 - 3) / 0\<close> is \<open>Infinity\<close>, and a problem-solver suggestion is returned all the same,
  whose second step has the expression \<open>x = Infinity\<close>.
\<close>

theorem zero_coefficient_gives_infinity:
  "generateTransformationSuggestions engine zeroCoefficientDocument = Inr [zeroLinear, zeroProblem]
   \<and> type zeroProblem = str ''problem-solver''
   \<and> (\<exists>first second.
         map_of (blockParameters zeroProblem) (str ''steps'') = Some (VArray [VObject first, VObject second])
         \<and> map_of first (str ''expression'') = Some (VString (str ''0x = 4''))
         \<and> map_of second (str ''description'') = Some (VString (str ''Solve for the variable''))
         \<and> map_of second (str ''expression'') = Some (VString (str ''x = Infinity''))
         \<and> map_of second (str ''explanation'')
             = Some (VString (str ''Divide both sides by the coefficient 0 to find the value of x.'')))
   \<and> parseFloat (str ''0'') = Finite 0 0
   \<and> numDivide (numSubtract (parseFloat (str ''7'')) (parseFloat (str ''3''))) (parseFloat (str ''0''))
       = Infinity False
   \<and> numberToString (Infinity False) = str ''Infinity''"
proof (intro conjI)
  show "generateTransformationSuggestions engine zeroCoefficientDocument = Inr [zeroLinear, zeroProblem]"
    by (rule zero_result)
  show "type zeroProblem = str ''problem-solver''"
    by (simp add: zeroProblem_def problemSolver_def)
  show "\<exists>first second.
         map_of (blockParameters zeroProblem) (str ''steps'') = Some (VArray [VObject first, VObject second])
         \<and> map_of first (str ''expression'') = Some (VString (str ''0x = 4''))
         \<and> map_of second (str ''description'') = Some (VString (str ''Solve for the variable''))
         \<and> map_of second (str ''expression'') = Some (VString (str ''x = Infinity''))
         \<and> map_of second (str ''explanation'')
             = Some (VString (str ''Divide both sides by the coefficient 0 to find the value of x.''))"
    by (simp add: zeroProblem_def zeroSteps_def problemSolver_def step_def str_def)
  show "parseFloat (str ''0'') = Finite 0 0"
    by (rule parse_0)
  show "numDivide (numSubtract (parseFloat (str ''7'')) (parseFloat (str ''3''))) (parseFloat (str ''0''))
       = Infinity False"
    by (simp only: parse_0 parse_3 parse_7 subtract_7_3) simp
  show "numberToString (Infinity False) = str ''Infinity''"
    by (rule print_Infinity)
qed

text \<open>
  Claim C8.  The analysis is deterministic: two calls on the same input return equal
  lists, and no state of one call reaches the next.  On the heap, for every heap that
  earlier calls (or anything else) may have left, a call followed by a second call on the
  heap that the first has left gives two results that are both the list that the
  document alone determines, read when the second call has returned: the second call
  neither reads what the first has left nor writes to the array that the first returned.
\<close>

theorem analysis_deterministic:
  "twoCalls engine doc h
     = (generateTransformationSuggestions engine doc, generateTransformationSuggestions engine doc)
   \<and> fst (twoCalls engine doc h) = snd (twoCalls engine doc h)"
proof -
  obtain first h1 where c1: "call engine doc h = (first, h1)"
    by (cases "call engine doc h")
  obtain second h2 where c2: "call engine doc h1 = (second, h2)"
    by (cases "call engine doc h1")
  note r1 = call_eq [of engine doc h]
  note r2 = call_eq [of engine doc h1]
  have "twoCalls engine doc h
        = (generateTransformationSuggestions engine doc,
           generateTransformationSuggestions engine doc)"
  proof (cases "generateTransformationSuggestions engine doc")
    case (Inl err)
    then have "first = Inl err" and "second = Inl err"
      using r1 r2 c1 c2 by simp_all
    then show ?thesis
      using Inl c1 c2 by (simp add: twoCalls_def resultOf_def)
  next
    case (Inr result)
    then have "first = Inr (length (arrays h))" and "arrays h1 = arrays h @ [result]"
      using r1 c1 by simp_all
    moreover from Inr have "second = Inr (length (arrays h1))" and "arrays h2 = arrays h1 @ [result]"
      using r2 c2 by simp_all
    ultimately show ?thesis
      using Inr c1 c2 by (simp add: twoCalls_def resultOf_def nth_append)
  qed
  then show ?thesis
    by simp
qed

theorem analysis_deterministic_witness:
  "twoCalls noMatch workedDocument
     \<lparr>regExps = [\<lparr>pattern = linearEquationPattern, global = True, sticky = False, lastIndex = 7\<rparr>],
      arrays = [[workedProblem]]\<rparr>
   = (Inr [workedLinear, workedProblem, workedProblem, workedProblem, workedFirst, workedSecond],
      Inr [workedLinear, workedProblem, workedProblem, workedProblem, workedFirst, workedSecond])"
  using analysis_deterministic
    [of noMatch workedDocument
        "\<lparr>regExps = [\<lparr>pattern = linearEquationPattern, global = True, sticky = False,
                      lastIndex = 7\<rparr>],
          arrays = [[workedProblem]]\<rparr>"]
    worked_result [of noMatch]
  by simp

text \<open>
  Claim C9.  The specification wants the analysis never to raise.  The selector
  \<open>#solution-\<close> followed by the element's id is parsed as it stands, so for
  \<^verbatim>\<open><h2>Q</h2><p id="(">Solve for x: 2x + 3 = 7</p>\<close> the call \<open>querySelector('#solution-(')\<close>
  throws a \<open>SyntaxError\<close>, whatever the selector engine does elsewhere, and the analysis
  ends with it.
\<close>

theorem unescaped_id_raises:
  "generateTransformationSuggestions engine parenthesisIdDocument = Inl SyntaxError
   \<and> elementId (node (allElements parenthesisIdDocument ! 4)) = str ''(''
   \<and> querySelectorSolution engine parenthesisIdDocument (str ''('') = Inl SyntaxError"
  by (simp add: parenthesis_result parenthesis_candidates)
     (simp add: querySelectorSolution_def isNameChar_def cannotFollow_def str_def)

text \<open>
  Claim C10.  The candidates of the problem detector are the results of seven selectors
  one after the other, with no element removed.  In
  \<^verbatim>\<open><h2>T</h2><p class="problem"><strong>Solve for x:</strong> 2x + 3 = 7</p><ol><li>2x = 4</li><li>x = 2</li></ol>\<close>
  the paragraph follows an \<open>h2\<close>, has the class \<open>problem\<close> and contains a \<open>strong\<close>: it is a
  candidate three times, and the analysis returns the same problem-solver suggestion for
  it three times.
\<close>

theorem element_found_by_three_selectors:
  "potentialProblems workedDocument
     = [allElements workedDocument ! 4, allElements workedDocument ! 4, allElements workedDocument ! 4]
   \<and> node (allElements workedDocument ! 4) = problemParagraph
   \<and> generateTransformationSuggestions engine workedDocument
       = Inr [workedLinear, workedProblem, workedProblem, workedProblem, workedFirst, workedSecond]
   \<and> type workedProblem = str ''problem-solver''
   \<and> sourceElements workedProblem = [allElements workedDocument ! 4]
   \<and> type workedLinear = str ''equationExplorer''
   \<and> type workedFirst = str ''equationExplorer''
   \<and> type workedSecond = str ''equationExplorer''"
proof (intro conjI)
  show "potentialProblems workedDocument
     = [allElements workedDocument ! 4, allElements workedDocument ! 4, allElements workedDocument ! 4]"
    by (rule worked_candidates)
  show "node (allElements workedDocument ! 4) = problemParagraph"
    by (simp add: workedDocument_def problemParagraph_def domEval)
  show "generateTransformationSuggestions engine workedDocument
       = Inr [workedLinear, workedProblem, workedProblem, workedProblem, workedFirst, workedSecond]"
    by (rule worked_result)
  show "type workedProblem = str ''problem-solver''"
    "sourceElements workedProblem = [allElements workedDocument ! 4]"
    by (simp_all add: workedProblem_def problemSolver_def)
  show "type workedLinear = str ''equationExplorer''"
    "type workedFirst = str ''equationExplorer''"
    "type workedSecond = str ''equationExplorer''"
    by (simp_all add: workedLinear_def workedFirst_def workedSecond_def equationExplorer_def)
qed

end
